theory Spec2Isabelle
  imports Complex_Main "HOL-Library.Sublist" "HOL-Library.Log_Nat"
begin

section \<open>The training script \<^verbatim>\<open>train.py\<close>\<close>

text \<open>
  \<^verbatim>\<open>train.py\<close> turns a configuration object into calls of a deep-learning framework.
  The framework is not part of the script. Each call into it is embedded as a constructor
  that records the call with the arguments the script passes, in the script's argument
  order. Where a call of the framework checks its arguments and raises, the check is
  embedded with it: the constructors of the Adagrad and Ftrl optimizers,
  \<^verbatim>\<open>tf.get_collection\<close> with a scope, \<^verbatim>\<open>slim.assign_from_checkpoint_fn\<close> and
  \<^verbatim>\<open>slim.learning.create_train_op\<close>. What the framework computes is outside this
  development.

  The hyperparameters of the configuration are finite numbers that the script only hands
  to the framework; they are embedded as rationals. The arithmetic that the script does
  itself, on line 48, is embedded in double precision.
\<close>

subsection \<open>Errors\<close>

text \<open>
  An exception is a value. \<open>ValueError\<close> carries the arguments the exception object is
  built from; where the framework puts a number into its message, the message is given
  with the number left out. \<open>re_error\<close> is the error \<^verbatim>\<open>re.error\<close> of a regular
  expression that does not compile.
\<close>

datatype py_error =
    ValueError "string list"
  | ZeroDivisionError
  | OverflowError
  | KeyError string
  | AssertionError
  | re_error

subsection \<open>Floats\<close>

text \<open>
  A Python float is a double: a finite value, an infinity (\<open>Inf True\<close> is the positive
  one) or NaN. The sign of a zero is not kept; nothing on line 48 depends on it. A
  number of the configuration file is an int or a float.
\<close>

datatype py_float = Finite rat | Inf bool | NaN

datatype number = PyInt int | PyFloat py_float

text \<open>
  \<open>round_double\<close> is the double nearest to a rational, ties to the even mantissa, and the
  infinity of its sign from \<open>2 ^ 1024\<close> on: \<open>ilog2 x\<close> is the exponent \<open>e\<close> with
  \<open>2 ^ e \<le> \<bar>x\<bar> < 2 ^ (e + 1)\<close>, the mantissa has 53 bits, and below \<open>2 ^ - 1022\<close> the
  spacing of the doubles stays \<open>2 ^ - 1074\<close>.
\<close>

definition pow2 :: "int \<Rightarrow> rat" where
  "pow2 e = (if 0 \<le> e then 2 ^ nat e else 1 / 2 ^ nat (- e))"

definition ilog2 :: "rat \<Rightarrow> int" where
  "ilog2 x =
     (let (p, q) = quotient_of \<bar>x\<bar>; d = bitlen p - bitlen q
      in if pow2 d \<le> \<bar>x\<bar> then d else d - 1)"

definition round_half_even :: "rat \<Rightarrow> int" where
  "round_half_even y =
     (let f = \<lfloor>y\<rfloor>; r = y - of_int f
      in if r < 1 / 2 then f else if 1 / 2 < r then f + 1
         else if even f then f else f + 1)"

definition round_double :: "rat \<Rightarrow> py_float" where
  "round_double x =
     (if x = 0 then Finite 0
      else let e = max (ilog2 x) (- 1022);
               quantum = pow2 (e - 52);
               y = of_int (round_half_even (x / quantum)) * quantum
           in if pow2 1024 \<le> \<bar>y\<bar> then Inf (0 < x) else Finite y)"

text \<open>
  \<^verbatim>\<open>a / b\<close> on two ints, under \<^verbatim>\<open>from __future__ import division\<close>: a zero divisor
  raises \<open>ZeroDivisionError\<close>, whatever the dividend; otherwise the result is the
  correctly rounded quotient, and \<open>OverflowError\<close> when that is out of range.
\<close>

definition truediv :: "int \<Rightarrow> int \<Rightarrow> py_error + py_float" where
  "truediv a b =
     (if b = 0 then Inl ZeroDivisionError
      else case round_double (of_int a / of_int b) of
             Finite q \<Rightarrow> Inr (Finite q)
           | _ \<Rightarrow> Inl OverflowError)"

text \<open>
  The int operand of a float operation is converted to a float first, which raises
  \<open>OverflowError\<close> when the int is out of range.
\<close>

definition float_of_number :: "number \<Rightarrow> py_error + py_float" where
  "float_of_number n =
     (case n of
        PyFloat y \<Rightarrow> Inr y
      | PyInt i \<Rightarrow>
          (case round_double (of_int i) of
             Finite r \<Rightarrow> Inr (Finite r)
           | _ \<Rightarrow> Inl OverflowError))"

text \<open>
  The product of two floats never raises: it rounds, overflows to an infinity, and is NaN
  for NaN operands and for zero times an infinity.
\<close>

fun float_mul :: "py_float \<Rightarrow> py_float \<Rightarrow> py_float" where
  "float_mul (Finite a) (Finite b) = round_double (a * b)"
| "float_mul NaN y = NaN"
| "float_mul x NaN = NaN"
| "float_mul (Finite a) (Inf s) = (if a = 0 then NaN else Inf (s = (0 < a)))"
| "float_mul (Inf s) (Finite b) = (if b = 0 then NaN else Inf (s = (0 < b)))"
| "float_mul (Inf s) (Inf t) = Inf (s = t)"

text \<open>
  \<^verbatim>\<open>int(x)\<close> truncates a finite float towards zero, raises \<open>OverflowError\<close> for an
  infinity and \<open>ValueError\<close> for NaN.
\<close>

definition int_of_float :: "py_float \<Rightarrow> py_error + int" where
  "int_of_float x =
     (case x of
        Finite r \<Rightarrow> Inr (if 0 \<le> r then \<lfloor>r\<rfloor> else \<lceil>r\<rceil>)
      | Inf s \<Rightarrow> Inl OverflowError
      | NaN \<Rightarrow> Inl (ValueError [''cannot convert float NaN to integer'']))"

subsection \<open>The configuration\<close>

record session_config =
  LOG_DEVICE_PLACEMENT :: bool
  PER_PROCESS_GPU_MEMORY_FRACTION :: rat

text \<open>
  The fields of \<open>cfg\<close> that the script reads. \<open>IMAGE_PROCESSING\<close> is a nested
  configuration that the script hands to the input pipeline unread, so its type is a
  parameter. \<open>NUM_TRAIN_EXAMPLES\<close> and \<open>BATCH_SIZE\<close> are ints, \<open>NUM_EPOCHS_PER_DELAY\<close>
  is an int or a float. The record is extensible, as the configuration file may hold more
  fields.
\<close>

record 'ip cfg =
  NUM_TRAIN_EXAMPLES :: int
  BATCH_SIZE :: int
  NUM_EPOCHS_PER_DELAY :: number
  LEARNING_RATE_DECAY_TYPE :: string
  INITIAL_LEARNING_RATE :: rat
  LEARNING_RATE_DECAY_FACTOR :: rat
  LEARNING_RATE_STAIRCASE :: bool
  END_LEARNING_RATE :: rat
  OPTIMIZER :: string
  ADADELTA_RHO :: rat
  OPTIMIZER_EPSILON :: rat
  ADAGRAD_INITIAL_ACCUMULATOR_VALUE :: rat
  ADAM_BETA1 :: rat
  ADAM_BETA2 :: rat
  FTRL_LEARNING_RATE_POWER :: rat
  FTRL_INITIAL_ACCUMULATOR_VALUE :: rat
  FTRL_L1 :: rat
  FTRL_L2 :: rat
  MOMENTUM :: rat
  RMSPROP_DECAY :: rat
  IMAGE_PROCESSING :: 'ip
  NUM_INPUT_THREADS :: int
  SHUFFLE_QUEUE :: bool
  RANDOM_SEED :: int
  QUEUE_CAPACITY :: int
  QUEUE_MIN :: int
  NUM_CLASSES :: int
  MODEL_NAME :: string
  WEIGHT_DECAY :: rat
  BATCHNORM_MOVING_AVERAGE_DECAY :: rat
  BATCHNORM_EPSILON :: rat
  DROPOUT_KEEP_PROB :: rat
  MOVING_AVERAGE_DECAY :: rat
  SESSION_CONFIG :: session_config
  MAX_TO_KEEP :: int
  KEEP_CHECKPOINT_EVERY_N_HOURS :: rat
  NUM_TRAIN_ITERATIONS :: int
  SAVE_SUMMARY_SECS :: int
  SAVE_INTERVAL_SECS :: int
  LOG_EVERY_N_STEPS :: int

subsection \<open>The learning rate\<close>

text \<open>
  Line 48:
  \<^verbatim>\<open>decay_steps = int(cfg.NUM_TRAIN_EXAMPLES / cfg.BATCH_SIZE * cfg.NUM_EPOCHS_PER_DELAY)\<close>.
  The quotient is evaluated first, then the product, then the conversion.
\<close>

definition decay_steps :: "('ip, 'z) cfg_scheme \<Rightarrow> py_error + int" where
  "decay_steps cfg =
     (case truediv (NUM_TRAIN_EXAMPLES cfg) (BATCH_SIZE cfg) of
        Inl e \<Rightarrow> Inl e
      | Inr q \<Rightarrow>
          (case float_of_number (NUM_EPOCHS_PER_DELAY cfg) of
             Inl e \<Rightarrow> Inl e
           | Inr epochs \<Rightarrow> int_of_float (float_mul q epochs)))"

text \<open>
  The tensors \<open>_configure_learning_rate\<close> can return, one constructor for each framework
  call. The arguments are those of the call, in the order of the source:
  \<^item> \<^verbatim>\<open>tf.train.exponential_decay(learning_rate, global_step, decay_steps, decay_rate, staircase=, name=)\<close>
  \<^item> \<^verbatim>\<open>tf.constant(value, name=)\<close>
  \<^item> \<^verbatim>\<open>tf.train.polynomial_decay(learning_rate, global_step, decay_steps, end_learning_rate, power=, cycle=, name=)\<close>
\<close>

datatype 'g learning_rate =
    exponential_decay rat 'g int rat bool string
  | tf_constant rat string
  | polynomial_decay rat 'g int rat rat bool string

definition configure_learning_rate ::
  "'g \<Rightarrow> ('ip, 'z) cfg_scheme \<Rightarrow> py_error + 'g learning_rate" where
  "configure_learning_rate global_step cfg =
     (case decay_steps cfg of
        Inl e \<Rightarrow> Inl e
      | Inr steps \<Rightarrow>
          if LEARNING_RATE_DECAY_TYPE cfg = ''exponential'' then
            Inr (exponential_decay (INITIAL_LEARNING_RATE cfg) global_step steps
                   (LEARNING_RATE_DECAY_FACTOR cfg) (LEARNING_RATE_STAIRCASE cfg)
                   ''exponential_decay_learning_rate'')
          else if LEARNING_RATE_DECAY_TYPE cfg = ''fixed'' then
            Inr (tf_constant (INITIAL_LEARNING_RATE cfg) ''fixed_learning_rate'')
          else if LEARNING_RATE_DECAY_TYPE cfg = ''polynomial'' then
            Inr (polynomial_decay (INITIAL_LEARNING_RATE cfg) global_step steps
                   (END_LEARNING_RATE cfg) 1 False ''polynomial_decay_learning_rate'')
          else
            Inl (ValueError [''learning_rate_decay_type [%s] was not recognized'',
                             LEARNING_RATE_DECAY_TYPE cfg]))"

subsection \<open>The optimizer\<close>

text \<open>
  One constructor for each optimizer class of the framework; the first argument is the
  learning rate, the others are the keyword arguments in the order of the source.
\<close>

datatype 'l optimizer =
    AdadeltaOptimizer 'l rat rat
  | AdagradOptimizer 'l rat
  | AdamOptimizer 'l rat rat rat
  | FtrlOptimizer 'l rat rat rat rat
  | MomentumOptimizer 'l rat string
  | RMSPropOptimizer 'l rat rat rat
  | GradientDescentOptimizer 'l

text \<open>
  Two constructors of the framework check their hyperparameters, in this order, before
  they build the optimizer; the other five take what they are given.
\<close>

definition tf_train_AdagradOptimizer :: "'l \<Rightarrow> rat \<Rightarrow> py_error + 'l optimizer" where
  "tf_train_AdagradOptimizer learning_rate initial_accumulator_value =
     (if initial_accumulator_value \<le> 0 then
        Inl (ValueError [''initial_accumulator_value must be positive: %s''])
      else Inr (AdagradOptimizer learning_rate initial_accumulator_value))"

definition tf_train_FtrlOptimizer ::
  "'l \<Rightarrow> rat \<Rightarrow> rat \<Rightarrow> rat \<Rightarrow> rat \<Rightarrow> py_error + 'l optimizer" where
  "tf_train_FtrlOptimizer learning_rate learning_rate_power initial_accumulator_value
       l1_regularization_strength l2_regularization_strength =
     (if initial_accumulator_value < 0 then
        Inl (ValueError [''initial_accumulator_value %f needs to be positive or zero''])
      else if 0 < learning_rate_power then
        Inl (ValueError [''learning_rate_power %f needs to be negative or zero''])
      else if l1_regularization_strength < 0 then
        Inl (ValueError [''l1_regularization_strength %f needs to be positive or zero''])
      else if l2_regularization_strength < 0 then
        Inl (ValueError [''l2_regularization_strength %f needs to be positive or zero''])
      else
        Inr (FtrlOptimizer learning_rate learning_rate_power initial_accumulator_value
               l1_regularization_strength l2_regularization_strength))"

definition configure_optimizer ::
  "'l \<Rightarrow> ('ip, 'z) cfg_scheme \<Rightarrow> py_error + 'l optimizer" where
  "configure_optimizer learning_rate cfg =
     (if OPTIMIZER cfg = ''adadelta'' then
        Inr (AdadeltaOptimizer learning_rate (ADADELTA_RHO cfg) (OPTIMIZER_EPSILON cfg))
      else if OPTIMIZER cfg = ''adagrad'' then
        tf_train_AdagradOptimizer learning_rate (ADAGRAD_INITIAL_ACCUMULATOR_VALUE cfg)
      else if OPTIMIZER cfg = ''adam'' then
        Inr (AdamOptimizer learning_rate (ADAM_BETA1 cfg) (ADAM_BETA2 cfg)
               (OPTIMIZER_EPSILON cfg))
      else if OPTIMIZER cfg = ''ftrl'' then
        tf_train_FtrlOptimizer learning_rate (FTRL_LEARNING_RATE_POWER cfg)
          (FTRL_INITIAL_ACCUMULATOR_VALUE cfg) (FTRL_L1 cfg) (FTRL_L2 cfg)
      else if OPTIMIZER cfg = ''momentum'' then
        Inr (MomentumOptimizer learning_rate (MOMENTUM cfg) ''Momentum'')
      else if OPTIMIZER cfg = ''rmsprop'' then
        Inr (RMSPropOptimizer learning_rate (RMSPROP_DECAY cfg) (MOMENTUM cfg)
               (OPTIMIZER_EPSILON cfg))
      else if OPTIMIZER cfg = ''sgd'' then
        Inr (GradientDescentOptimizer learning_rate)
      else
        Inl (ValueError [''Optimizer [%s] was not recognized'', OPTIMIZER cfg]))"

text \<open>
  The recognised values of the two string flags, and the test that a result is a raised
  \<open>ValueError\<close>.
\<close>

definition decay_types :: "string set" where
  "decay_types = {''exponential'', ''fixed'', ''polynomial''}"

definition optimizers :: "string set" where
  "optimizers =
     {''adadelta'', ''adagrad'', ''adam'', ''ftrl'', ''momentum'', ''rmsprop'', ''sgd''}"

definition is_ValueError :: "py_error + 'a \<Rightarrow> bool" where
  "is_ValueError r = (case r of Inl (ValueError args) \<Rightarrow> True | _ \<Rightarrow> False)"

subsection \<open>Regular expressions\<close>

text \<open>
  \<^verbatim>\<open>tf.get_collection\<close> compiles its scope with \<^verbatim>\<open>re.compile\<close> and keeps the items
  whose name the pattern matches at its start (\<^verbatim>\<open>match\<close>). The part of the pattern
  language embedded here has the characters that stand for themselves, the dot (any
  character but a newline) and the star after one of the two. A star with nothing to
  repeat does not compile. A pattern with any other special character is outside this
  part.
\<close>

definition other_special :: "char \<Rightarrow> bool" where
  "other_special c =
     (c \<in> {CHR ''^'', CHR ''$'', CHR ''+'', CHR ''?'', CHR ''{'', CHR ''}'', CHR ''['',
           CHR '']'', CHR 0x5C, CHR ''|'', CHR ''('', CHR '')''})"

definition special :: "char \<Rightarrow> bool" where
  "special c = (c = CHR ''.'' \<or> c = CHR ''*'' \<or> other_special c)"

datatype atom = Lit char | Dot

datatype item = One atom | Star atom

fun parse :: "string \<Rightarrow> item list option" where
  "parse [] = Some []"
| "parse [c] =
     (if c = CHR ''*'' then None
      else Some [One (if c = CHR ''.'' then Dot else Lit c)])"
| "parse (c # d # cs) =
     (if c = CHR ''*'' then None
      else if d = CHR ''*'' then
        map_option ((#) (Star (if c = CHR ''.'' then Dot else Lit c))) (parse cs)
      else
        map_option ((#) (One (if c = CHR ''.'' then Dot else Lit c))) (parse (d # cs)))"

fun accepts :: "atom \<Rightarrow> char \<Rightarrow> bool" where
  "accepts (Lit x) c = (x = c)"
| "accepts Dot c = (c \<noteq> CHR 0x0A)"

fun matches :: "item list \<Rightarrow> string \<Rightarrow> bool" where
  "matches [] s = True"
| "matches (One a # items) [] = False"
| "matches (One a # items) (c # cs) = (accepts a c \<and> matches items cs)"
| "matches (Star a # items) [] = matches items []"
| "matches (Star a # items) (c # cs) =
     (matches items (c # cs) \<or> (accepts a c \<and> matches (Star a # items) cs))"

text \<open>
  The result of \<^verbatim>\<open>re.compile\<close>: the test \<^verbatim>\<open>match\<close> of the compiled pattern, or
  \<open>None\<close> when the pattern does not compile. For a pattern outside the embedded part the
  result is taken from the parameter \<open>other\<close>.
\<close>

definition re_compile ::
  "(string \<Rightarrow> (string \<Rightarrow> bool) option) \<Rightarrow> string \<Rightarrow> (string \<Rightarrow> bool) option" where
  "re_compile other pattern =
     (if list_ex other_special pattern then other pattern
      else map_option matches (parse pattern))"

subsection \<open>The framework's state\<close>

text \<open>
  A variable of the graph, with the two names the script reads: \<^verbatim>\<open>var.name\<close> and
  \<^verbatim>\<open>var.op.name\<close>.
\<close>

record variable =
  name :: string
  op_name :: string

text \<open>
  What the script reads from the framework and from the file system:
  \<^item> the collection \<^verbatim>\<open>tf.GraphKeys.TRAINABLE_VARIABLES\<close> of the graph, \<open>None\<close> when the
    graph has no collection of that name;
  \<^item> \<^verbatim>\<open>slim.get_model_variables()\<close>;
  \<^item> \<^verbatim>\<open>re.compile\<close> on the patterns outside the embedded part;
  \<^item> \<^verbatim>\<open>tf.train.latest_checkpoint(dir)\<close>, \<open>None\<close> when the directory holds no checkpoint;
  \<^item> \<^verbatim>\<open>os.path.isdir(path)\<close>.
\<close>

record framework =
  TRAINABLE_VARIABLES :: "variable list option"
  get_model_variables :: "variable list"
  re_compile_other :: "string \<Rightarrow> (string \<Rightarrow> bool) option"
  latest_checkpoint :: "string \<Rightarrow> string option"
  isdir :: "string \<Rightarrow> bool"

text \<open>
  \<^verbatim>\<open>tf.trainable_variables()\<close> is the whole collection, empty when the graph has none.
  \<^verbatim>\<open>tf.get_collection(tf.GraphKeys.TRAINABLE_VARIABLES, scope)\<close> is empty when the graph
  has no such collection; otherwise it compiles the scope, which can raise, and returns
  the items whose name the pattern matches, in the order of the collection.
\<close>

definition trainable_variables :: "framework \<Rightarrow> variable list" where
  "trainable_variables fw =
     (case TRAINABLE_VARIABLES fw of None \<Rightarrow> [] | Some collection \<Rightarrow> collection)"

definition get_collection :: "framework \<Rightarrow> string \<Rightarrow> py_error + variable list" where
  "get_collection fw scope =
     (case TRAINABLE_VARIABLES fw of
        None \<Rightarrow> Inr []
      | Some collection \<Rightarrow>
          (case re_compile (re_compile_other fw) scope of
             None \<Rightarrow> Inl re_error
           | Some regex_match \<Rightarrow> Inr (filter (\<lambda>item. regex_match (name item)) collection)))"

subsection \<open>Strings\<close>

text \<open>\<^verbatim>\<open>str.strip()\<close> removes the whitespace at both ends of a byte string.\<close>

definition isspace :: "char \<Rightarrow> bool" where
  "isspace c = (c \<in> {CHR '' '', CHR 0x09, CHR 0x0A, CHR 0x0B, CHR 0x0C, CHR 0x0D})"

definition strip :: "string \<Rightarrow> string" where
  "strip s = rev (dropWhile isspace (rev (dropWhile isspace s)))"

text \<open>
  The truth value of \<^verbatim>\<open>if x:\<close> for \<open>x\<close> a string or \<open>None\<close>: \<open>None\<close> and the empty
  string are false.
\<close>

definition truthy :: "string option \<Rightarrow> bool" where
  "truthy x = (case x of None \<Rightarrow> False | Some s \<Rightarrow> s \<noteq> [])"

subsection \<open>The variables to train\<close>

text \<open>
  Lines 133 to 137: the loop over the stripped scopes extends \<open>variables_to_train\<close> with
  the matching variables of each scope; an error of \<open>get_collection\<close> ends it.
\<close>

fun extend_scopes ::
  "framework \<Rightarrow> string list \<Rightarrow> variable list \<Rightarrow> py_error + variable list" where
  "extend_scopes fw [] variables_to_train = Inr variables_to_train"
| "extend_scopes fw (scope # scopes) variables_to_train =
     (case get_collection fw scope of
        Inl e \<Rightarrow> Inl e
      | Inr variables \<Rightarrow> extend_scopes fw scopes (variables_to_train @ variables))"

definition get_trainable_variables ::
  "framework \<Rightarrow> string list option \<Rightarrow> py_error + variable list" where
  "get_trainable_variables fw trainable_scopes =
     (case trainable_scopes of
        None \<Rightarrow> Inr (trainable_variables fw)
      | Some scopes \<Rightarrow> extend_scopes fw (map strip scopes) [])"

subsection \<open>The function that restores a pretrained model\<close>

text \<open>
  \<^verbatim>\<open>slim.assign_from_checkpoint_fn(checkpoint_path, variables_to_restore, ignore_missing_vars=)\<close>
\<close>

datatype init_fn = assign_from_checkpoint_fn string "variable list" bool

text \<open>The framework refuses an empty list of variables.\<close>

definition slim_assign_from_checkpoint_fn ::
  "string \<Rightarrow> variable list \<Rightarrow> bool \<Rightarrow> py_error + init_fn" where
  "slim_assign_from_checkpoint_fn model_path var_list ignore_missing_vars =
     (if var_list = [] then Inl (ValueError [''var_list cannot be empty''])
      else Inr (assign_from_checkpoint_fn model_path var_list ignore_missing_vars))"

text \<open>Lines 171 to 175: the inner loop, which stops at the first exclusion that matches.\<close>

fun is_excluded :: "string list \<Rightarrow> variable \<Rightarrow> bool" where
  "is_excluded [] var = False"
| "is_excluded (exclusion # exclusions) var =
     (if prefix exclusion (op_name var) then True else is_excluded exclusions var)"

text \<open>Lines 169 to 177: the loop over the model variables.\<close>

fun restore_loop :: "string list \<Rightarrow> variable list \<Rightarrow> variable list \<Rightarrow> variable list" where
  "restore_loop exclusions [] variables_to_restore = variables_to_restore"
| "restore_loop exclusions (var # vars) variables_to_restore =
     (if \<not> is_excluded exclusions var
      then restore_loop exclusions vars (variables_to_restore @ [var])
      else restore_loop exclusions vars variables_to_restore)"

text \<open>
  The result is the list of lines written with \<^verbatim>\<open>tf.logging.info\<close> and the returned
  value, \<open>None\<close> or an initialisation function; or the raised error.
\<close>

definition get_init_function ::
  "framework \<Rightarrow> string \<Rightarrow> string option \<Rightarrow> string list option
   \<Rightarrow> py_error + string list \<times> init_fn option" where
  "get_init_function fw logdir pretrained_model_path checkpoint_exclude_scopes =
     (case pretrained_model_path of
        None \<Rightarrow> Inr ([], None)
      | Some path \<Rightarrow>
          if truthy (latest_checkpoint fw logdir) then
            Inr ([''Ignoring --pretrained_model_path because a checkpoint already exists in ''
                  @ logdir], None)
          else
            let exclusions =
                  (case checkpoint_exclude_scopes of
                     None \<Rightarrow> []
                   | Some scopes \<Rightarrow> if scopes = [] then [] else map strip scopes);
                variables_to_restore = restore_loop exclusions (get_model_variables fw) []
            in
              if isdir fw path then
                (case latest_checkpoint fw path of
                   None \<Rightarrow>
                     Inl (ValueError [''No model checkpoint file found in directory '' @ path])
                 | Some checkpoint_path \<Rightarrow>
                     (case slim_assign_from_checkpoint_fn checkpoint_path
                             variables_to_restore False of
                        Inl e \<Rightarrow> Inl e
                      | Inr init_fn \<Rightarrow>
                          Inr ([''Fine-tuning from '' @ checkpoint_path], Some init_fn)))
              else
                (case slim_assign_from_checkpoint_fn path variables_to_restore False of
                   Inl e \<Rightarrow> Inl e
                 | Inr init_fn \<Rightarrow> Inr ([''Fine-tuning from '' @ path], Some init_fn)))"

subsection \<open>Building the graph and training\<close>

text \<open>
  The tables \<^verbatim>\<open>nets_factory.arg_scopes_map\<close> and \<^verbatim>\<open>nets_factory.networks_map\<close> are
  not part of \<^verbatim>\<open>train.py\<close>; they are parameters. A network is described by what
  building it leaves in the graph: the keys of its \<open>end_points\<close>, the model variables and
  the collection of trainable variables (\<open>None\<close> when it adds none).
\<close>

record network =
  end_points :: "string list"
  model_variables :: "variable list"
  trainable :: "variable list option"

record nets_factory =
  arg_scopes_map :: "string \<rightharpoonup> string"
  networks_map :: "string \<rightharpoonup> network"

datatype global_step = get_or_create_global_step

text \<open>
  A call of \<open>train\<close> into the framework (or into the input pipeline), with the
  configuration values it is given. The constructors are listed in the order of the source,
  lines 213 to 311:
  \<^item> \<open>GlobalStep\<close>: \<^verbatim>\<open>slim.get_or_create_global_step()\<close>;
  \<^item> \<open>LearningRate\<close>, \<open>Optimizer\<close>: the results of \<open>_configure_learning_rate\<close> and
    \<open>_configure_optimizer\<close>;
  \<^item> \<open>InputNodes\<close>: \<^verbatim>\<open>inputs.input_nodes\<close> with \<open>tfrecords\<close>, \<open>cfg.IMAGE_PROCESSING\<close>,
    \<open>batch_size\<close>, \<open>num_threads\<close>, \<open>shuffle_batch\<close>, \<open>random_seed\<close>, \<open>capacity\<close> and
    \<open>min_after_dequeue\<close>;
  \<^item> \<open>OneHotEncoding\<close>: \<^verbatim>\<open>slim.one_hot_encoding\<close> with \<open>num_classes\<close>;
  \<^item> \<open>InputSummaries\<close>: the copy of the collection of summaries;
  \<^item> \<open>ArgScope\<close>, \<open>Network\<close>: the entries of the two tables for \<open>cfg.MODEL_NAME\<close>,
    applied; a missing entry raises \<open>KeyError\<close>;
  \<^item> \<open>AuxLoss\<close>, \<open>Loss\<close>: \<^verbatim>\<open>tf.losses.softmax_cross_entropy\<close> with its weight, the first
    only if the network has the end point \<open>AuxLogits\<close>; \<open>TotalLoss\<close>:
    \<^verbatim>\<open>tf.losses.get_total_loss()\<close>;
  \<^item> \<open>ExponentialMovingAverage\<close> with \<open>decay\<close> and \<open>num_updates\<close>, and \<open>MaintainAverages\<close>:
    \<^verbatim>\<open>ema.apply\<close> on the model variables, added to the update ops;
  \<^item> \<open>CreateTrainOp\<close>: \<^verbatim>\<open>slim.learning.create_train_op\<close> with the optimizer and the
    variables to train;
  \<^item> \<open>SummaryMerge\<close>, \<open>ConfigProto\<close> (\<open>log_device_placement\<close>, \<open>allow_soft_placement\<close>,
    memory fraction), \<open>Saver\<close> (\<open>max_to_keep\<close>, \<open>keep_checkpoint_every_n_hours\<close>);
  \<^item> \<open>LearningTrain\<close>: \<^verbatim>\<open>slim.learning.train\<close> with \<open>logdir\<close>, the result of
    \<open>get_init_function\<close>, \<open>number_of_steps\<close>, \<open>save_summaries_secs\<close>,
    \<open>save_interval_secs\<close> and \<open>log_every_n_steps\<close>.

  \<open>train\<close> returns the calls it has made, in order, or the first error raised. The graph
  is new, so when the variables are read its collections hold what the network has put
  there. The lines written to the log are not part of the result.
\<close>

datatype 'ip graph_call =
    GlobalStep global_step
  | LearningRate "global_step learning_rate"
  | Optimizer "global_step learning_rate optimizer"
  | InputNodes "string list" 'ip int int bool int int int
  | OneHotEncoding int
  | InputSummaries
  | ArgScope string rat rat rat
  | Network string int rat bool
  | AuxLoss rat
  | Loss rat
  | TotalLoss
  | ExponentialMovingAverage rat global_step
  | MaintainAverages "variable list"
  | CreateTrainOp "global_step learning_rate optimizer" "variable list"
  | SummaryMerge
  | ConfigProto bool bool rat
  | Saver int rat
  | LearningTrain string "init_fn option" int int int int

text \<open>
  \<^verbatim>\<open>slim.learning.create_train_op\<close> asserts that there is a variable to train.
\<close>

definition slim_learning_create_train_op ::
  "global_step learning_rate optimizer \<Rightarrow> variable list \<Rightarrow> py_error + 'ip graph_call" where
  "slim_learning_create_train_op optimizer variables_to_train =
     (if variables_to_train = [] then Inl AssertionError
      else Inr (CreateTrainOp optimizer variables_to_train))"

definition train ::
  "framework \<Rightarrow> nets_factory \<Rightarrow> string list \<Rightarrow> string \<Rightarrow> ('ip, 'z) cfg_scheme
   \<Rightarrow> string option \<Rightarrow> string list option \<Rightarrow> string list option
   \<Rightarrow> py_error + 'ip graph_call list" where
  "train fw nets tfrecords logdir cfg pretrained_model_path trainable_scopes
         checkpoint_exclude_scopes =
     (let global_step = get_or_create_global_step in
      case configure_learning_rate global_step cfg of
        Inl e \<Rightarrow> Inl e
      | Inr lr \<Rightarrow>
      (case configure_optimizer lr cfg of
        Inl e \<Rightarrow> Inl e
      | Inr optimizer \<Rightarrow>
      (case arg_scopes_map nets (MODEL_NAME cfg) of
        None \<Rightarrow> Inl (KeyError (MODEL_NAME cfg))
      | Some arg_scope \<Rightarrow>
      (case networks_map nets (MODEL_NAME cfg) of
        None \<Rightarrow> Inl (KeyError (MODEL_NAME cfg))
      | Some net \<Rightarrow>
         let graph = fw\<lparr>TRAINABLE_VARIABLES := trainable net,
                         get_model_variables := model_variables net\<rparr>;
             variables_to_average = get_model_variables graph
         in
         (case get_trainable_variables graph trainable_scopes of
            Inl e \<Rightarrow> Inl e
          | Inr trainable_vars \<Rightarrow>
         (case slim_learning_create_train_op optimizer trainable_vars of
            Inl e \<Rightarrow> Inl e
          | Inr train_op \<Rightarrow>
         (case get_init_function graph logdir pretrained_model_path
                 checkpoint_exclude_scopes of
            Inl e \<Rightarrow> Inl e
          | Inr (logged, init_fn) \<Rightarrow>
              Inr ([GlobalStep global_step,
                    LearningRate lr,
                    Optimizer optimizer,
                    InputNodes tfrecords (IMAGE_PROCESSING cfg) (BATCH_SIZE cfg)
                      (NUM_INPUT_THREADS cfg) (SHUFFLE_QUEUE cfg) (RANDOM_SEED cfg)
                      (QUEUE_CAPACITY cfg) (QUEUE_MIN cfg),
                    OneHotEncoding (NUM_CLASSES cfg),
                    InputSummaries,
                    ArgScope (MODEL_NAME cfg) (WEIGHT_DECAY cfg)
                      (BATCHNORM_MOVING_AVERAGE_DECAY cfg) (BATCHNORM_EPSILON cfg),
                    Network (MODEL_NAME cfg) (NUM_CLASSES cfg) (DROPOUT_KEEP_PROB cfg) True]
                   @ (if ''AuxLogits'' \<in> set (end_points net) then [AuxLoss (4 / 10)] else [])
                   @ [Loss 1,
                      TotalLoss,
                      ExponentialMovingAverage (MOVING_AVERAGE_DECAY cfg) global_step,
                      MaintainAverages variables_to_average,
                      train_op,
                      SummaryMerge,
                      ConfigProto (LOG_DEVICE_PLACEMENT (SESSION_CONFIG cfg)) True
                        (PER_PROCESS_GPU_MEMORY_FRACTION (SESSION_CONFIG cfg)),
                      Saver (MAX_TO_KEEP cfg) (KEEP_CHECKPOINT_EVERY_N_HOURS cfg),
                      LearningTrain logdir init_fn (NUM_TRAIN_ITERATIONS cfg)
                        (SAVE_SUMMARY_SECS cfg) (SAVE_INTERVAL_SECS cfg)
                        (LOG_EVERY_N_STEPS cfg)]))))))))"

subsection \<open>The command line\<close>

record args =
  tfrecords :: "string list"
  logdir :: string
  config_file :: string
  pretrained_model :: "string option"
  trainable_scopes :: "string list option"
  checkpoint_exclude_scopes :: "string list option"
  max_number_of_steps :: "int option"
  learning_rate_decay_type :: "string option"
  learning_rate :: "rat option"
  batch_size :: "int option"
  model_name :: "string option"

definition replace_cfg_parameters :: "args \<Rightarrow> ('ip, 'z) cfg_scheme \<Rightarrow> ('ip, 'z) cfg_scheme" where
  "replace_cfg_parameters args cfg0 =
     (let cfg1 = (case max_number_of_steps args of
                    None \<Rightarrow> cfg0 | Some v \<Rightarrow> cfg0\<lparr>NUM_TRAIN_ITERATIONS := v\<rparr>);
          cfg2 = (case learning_rate_decay_type args of
                    None \<Rightarrow> cfg1 | Some v \<Rightarrow> cfg1\<lparr>LEARNING_RATE_DECAY_TYPE := v\<rparr>);
          cfg3 = (case learning_rate args of
                    None \<Rightarrow> cfg2 | Some v \<Rightarrow> cfg2\<lparr>INITIAL_LEARNING_RATE := v\<rparr>);
          cfg4 = (case batch_size args of
                    None \<Rightarrow> cfg3 | Some v \<Rightarrow> cfg3\<lparr>BATCH_SIZE := v\<rparr>);
          cfg5 = (case model_name args of
                    None \<Rightarrow> cfg4 | Some v \<Rightarrow> cfg4\<lparr>MODEL_NAME := v\<rparr>)
      in cfg5)"

definition main ::
  "framework \<Rightarrow> nets_factory \<Rightarrow> (string \<Rightarrow> ('ip, 'z) cfg_scheme) \<Rightarrow> args
   \<Rightarrow> py_error + 'ip graph_call list" where
  "main fw nets parse_config_file args =
     (let cfg = replace_cfg_parameters args (parse_config_file (config_file args))
      in train fw nets (tfrecords args) (logdir args) cfg (pretrained_model args)
           (trainable_scopes args) (checkpoint_exclude_scopes args))"

subsection \<open>The stages of the build\<close>

text \<open>
  The function that each call of the trace is a call of, by its name in the source. The
  two losses are calls of the same function.
\<close>

fun call_name :: "'ip graph_call \<Rightarrow> string" where
  "call_name (GlobalStep g) = ''slim.get_or_create_global_step''"
| "call_name (LearningRate lr) = ''_configure_learning_rate''"
| "call_name (Optimizer opt) = ''_configure_optimizer''"
| "call_name (InputNodes files ip b n s r c m) = ''inputs.input_nodes''"
| "call_name (OneHotEncoding n) = ''slim.one_hot_encoding''"
| "call_name InputSummaries = ''tf.get_collection''"
| "call_name (ArgScope m w d e) = ''nets_factory.arg_scopes_map''"
| "call_name (Network m n d t) = ''nets_factory.networks_map''"
| "call_name (AuxLoss w) = ''tf.losses.softmax_cross_entropy''"
| "call_name (Loss w) = ''tf.losses.softmax_cross_entropy''"
| "call_name TotalLoss = ''tf.losses.get_total_loss''"
| "call_name (ExponentialMovingAverage d g) = ''tf.train.ExponentialMovingAverage''"
| "call_name (MaintainAverages vs) = ''ema.apply''"
| "call_name (CreateTrainOp opt vs) = ''slim.learning.create_train_op''"
| "call_name SummaryMerge = ''tf.summary.merge''"
| "call_name (ConfigProto l a f) = ''tf.ConfigProto''"
| "call_name (Saver k h) = ''tf.train.Saver''"
| "call_name (LearningTrain d f n s i l) = ''slim.learning.train''"

text \<open>
  The specification describes the build of the graph by six stages and the training loop
  that follows them. \<open>stage_of\<close> says to which stage a call of \<open>train\<close> belongs. The
  construction of the optimizer and the creation of its train op are two stages, so that
  their places can be told apart. The global step, the learning rate, the merged
  summaries and the session configuration belong to no stage that the specification
  names.
\<close>

datatype stage =
    Optimizer_stage
  | Input_pipeline
  | Network_stage
  | Loss_stage
  | Moving_average_tracking
  | Train_op_stage
  | Checkpointing
  | Training_loop

fun stage_of :: "'ip graph_call \<Rightarrow> stage option" where
  "stage_of (GlobalStep g) = None"
| "stage_of (LearningRate lr) = None"
| "stage_of (Optimizer opt) = Some Optimizer_stage"
| "stage_of (InputNodes files ip b n s r c m) = Some Input_pipeline"
| "stage_of (OneHotEncoding n) = Some Input_pipeline"
| "stage_of InputSummaries = Some Input_pipeline"
| "stage_of (ArgScope m w d e) = Some Network_stage"
| "stage_of (Network m n d t) = Some Network_stage"
| "stage_of (AuxLoss w) = Some Loss_stage"
| "stage_of (Loss w) = Some Loss_stage"
| "stage_of TotalLoss = Some Loss_stage"
| "stage_of (ExponentialMovingAverage d g) = Some Moving_average_tracking"
| "stage_of (MaintainAverages vs) = Some Moving_average_tracking"
| "stage_of (CreateTrainOp opt vs) = Some Train_op_stage"
| "stage_of SummaryMerge = None"
| "stage_of (ConfigProto l a f) = None"
| "stage_of (Saver k h) = Some Checkpointing"
| "stage_of (LearningTrain d f n s i l) = Some Training_loop"

text \<open>The stages a list of calls goes through, in order.\<close>

definition stages :: "'ip graph_call list \<Rightarrow> stage list" where
  "stages calls = remdups_adj (List.map_filter stage_of calls)"

text \<open>
  The order in the words of the specification: input pipeline, network, loss, optimizer,
  moving-average tracking, checkpointing, and then the training loop. Its optimizer stage
  can be read as the construction of the optimizer or as the creation of its train op;
  \<open>spec_sequence\<close> takes the reading as its argument.
\<close>

definition spec_sequence :: "stage \<Rightarrow> stage list" where
  "spec_sequence optimizer_stage =
     [Input_pipeline, Network_stage, Loss_stage, optimizer_stage, Moving_average_tracking,
      Checkpointing, Training_loop]"

subsection \<open>A sample configuration\<close>

text \<open>A configuration to evaluate the script on: 1000 examples in batches of 32.\<close>

definition sample_cfg :: "unit cfg" where
  "sample_cfg = \<lparr>
     NUM_TRAIN_EXAMPLES = 1000, BATCH_SIZE = 32, NUM_EPOCHS_PER_DELAY = PyInt 2,
     LEARNING_RATE_DECAY_TYPE = ''exponential'', INITIAL_LEARNING_RATE = 1 / 100,
     LEARNING_RATE_DECAY_FACTOR = 94 / 100, LEARNING_RATE_STAIRCASE = True,
     END_LEARNING_RATE = 1 / 10000, OPTIMIZER = ''rmsprop'', ADADELTA_RHO = 95 / 100,
     OPTIMIZER_EPSILON = 1, ADAGRAD_INITIAL_ACCUMULATOR_VALUE = 1 / 10,
     ADAM_BETA1 = 9 / 10, ADAM_BETA2 = 999 / 1000, FTRL_LEARNING_RATE_POWER = - 1 / 2,
     FTRL_INITIAL_ACCUMULATOR_VALUE = 1 / 10, FTRL_L1 = 0, FTRL_L2 = 0,
     MOMENTUM = 9 / 10, RMSPROP_DECAY = 9 / 10, IMAGE_PROCESSING = (),
     NUM_INPUT_THREADS = 4, SHUFFLE_QUEUE = True, RANDOM_SEED = 1, QUEUE_CAPACITY = 2000,
     QUEUE_MIN = 200, NUM_CLASSES = 10, MODEL_NAME = ''inception_v3'',
     WEIGHT_DECAY = 4 / 100000, BATCHNORM_MOVING_AVERAGE_DECAY = 9997 / 10000,
     BATCHNORM_EPSILON = 1 / 1000, DROPOUT_KEEP_PROB = 8 / 10,
     MOVING_AVERAGE_DECAY = 9999 / 10000,
     SESSION_CONFIG = \<lparr>LOG_DEVICE_PLACEMENT = False,
                        PER_PROCESS_GPU_MEMORY_FRACTION = 9 / 10\<rparr>,
     MAX_TO_KEEP = 3, KEEP_CHECKPOINT_EVERY_N_HOURS = 1 / 2, NUM_TRAIN_ITERATIONS = 100000,
     SAVE_SUMMARY_SECS = 30, SAVE_INTERVAL_SECS = 1800, LOG_EVERY_N_STEPS = 10\<rparr>"

text \<open>
  A graph with three trainable variables and four model variables, one directory with a
  checkpoint and two without. No pattern outside the embedded part compiles here.
\<close>

definition sample_framework :: framework where
  "sample_framework = \<lparr>
     TRAINABLE_VARIABLES = Some
       [\<lparr>name = ''InceptionV3/Conv2d_1a/weights:0'', op_name = ''InceptionV3/Conv2d_1a/weights''\<rparr>,
        \<lparr>name = ''InceptionV3/Logits/weights:0'', op_name = ''InceptionV3/Logits/weights''\<rparr>,
        \<lparr>name = ''InceptionV3/AuxLogits/weights:0'', op_name = ''InceptionV3/AuxLogits/weights''\<rparr>],
     get_model_variables =
       [\<lparr>name = ''InceptionV3/Conv2d_1a/weights:0'', op_name = ''InceptionV3/Conv2d_1a/weights''\<rparr>,
        \<lparr>name = ''InceptionV3/Conv2d_1a/BatchNorm/moving_mean:0'',
         op_name = ''InceptionV3/Conv2d_1a/BatchNorm/moving_mean''\<rparr>,
        \<lparr>name = ''InceptionV3/Logits/weights:0'', op_name = ''InceptionV3/Logits/weights''\<rparr>,
        \<lparr>name = ''InceptionV3/AuxLogits/weights:0'', op_name = ''InceptionV3/AuxLogits/weights''\<rparr>],
     re_compile_other = (\<lambda>pattern. None),
     latest_checkpoint = (\<lambda>dir. if dir = ''/models/inception'' then Some ''/models/inception/model.ckpt-100'' else None),
     isdir = (\<lambda>path. path = ''/models/inception'' \<or> path = ''/models/empty'' \<or> path = ''/logs'')\<rparr>"

definition sample_nets :: nets_factory where
  "sample_nets = \<lparr>
     arg_scopes_map = [''inception_v3'' \<mapsto> ''inception_v3_arg_scope''],
     networks_map = [''inception_v3'' \<mapsto>
        \<lparr>end_points = [''Conv2d_1a'', ''AuxLogits'', ''Logits'', ''Predictions''],
         model_variables = get_model_variables sample_framework,
         trainable = TRAINABLE_VARIABLES sample_framework\<rparr>]\<rparr>"

text \<open>
  A command line that overrides the step count (with 0), the learning rate and the model
  name, and leaves the decay type and the batch size to the configuration file.
\<close>

definition sample_args :: args where
  "sample_args = \<lparr>
     tfrecords = [''train.tfrecords''], logdir = ''/logs'', config_file = ''config.yaml'',
     pretrained_model = Some ''/models/inception'', trainable_scopes = None,
     checkpoint_exclude_scopes = Some [''InceptionV3/Logits'', ''InceptionV3/AuxLogits''],
     max_number_of_steps = Some 0, learning_rate_decay_type = None,
     learning_rate = Some (1 / 1000), batch_size = None, model_name = Some ''resnet_v2_50''\<rparr>"

section \<open>Properties\<close>

subsection \<open>Facts shared by the proofs\<close>

text \<open>Which errors line 48 can raise.\<close>

lemma truediv_zero: "truediv a 0 = Inl ZeroDivisionError"
  by (simp add: truediv_def)

lemma truediv_nonzero: "b \<noteq> 0 \<Longrightarrow> truediv a b \<noteq> Inl ZeroDivisionError"
  by (simp add: truediv_def split: py_float.splits)

lemma float_of_number_error: "float_of_number n = Inl e \<Longrightarrow> e = OverflowError"
  by (auto simp: float_of_number_def split: number.splits py_float.splits)

lemma int_of_float_error:
  "int_of_float x = Inl e \<Longrightarrow>
     e = OverflowError \<or> e = ValueError [''cannot convert float NaN to integer'']"
  by (auto simp: int_of_float_def split: py_float.splits)

lemma decay_steps_zero: "BATCH_SIZE cfg = 0 \<Longrightarrow> decay_steps cfg = Inl ZeroDivisionError"
  by (simp add: decay_steps_def truediv_zero)

lemma decay_steps_nonzero:
  assumes "BATCH_SIZE cfg \<noteq> 0"
  shows "decay_steps cfg \<noteq> Inl ZeroDivisionError"
proof
  assume z: "decay_steps cfg = Inl ZeroDivisionError"
  from assms have t: "truediv (NUM_TRAIN_EXAMPLES cfg) (BATCH_SIZE cfg) \<noteq> Inl ZeroDivisionError"
    by (rule truediv_nonzero)
  show False
  proof (cases "truediv (NUM_TRAIN_EXAMPLES cfg) (BATCH_SIZE cfg)")
    case (Inl e)
    with z t show False by (simp add: decay_steps_def)
  next
    case q: (Inr q)
    show False
    proof (cases "float_of_number (NUM_EPOCHS_PER_DELAY cfg)")
      case (Inl e)
      with z q float_of_number_error [OF Inl] show False by (simp add: decay_steps_def)
    next
      case (Inr y)
      with z q have "int_of_float (float_mul q y) = Inl ZeroDivisionError"
        by (simp add: decay_steps_def)
      from int_of_float_error [OF this] show False by simp
    qed
  qed
qed

lemma decay_steps_ValueError:
  assumes "decay_steps cfg = Inl (ValueError a)"
  shows "a = [''cannot convert float NaN to integer'']"
proof (cases "truediv (NUM_TRAIN_EXAMPLES cfg) (BATCH_SIZE cfg)")
  case (Inl e)
  with assms show ?thesis
    by (auto simp: decay_steps_def truediv_def split: if_splits py_float.splits)
next
  case q: (Inr q)
  show ?thesis
  proof (cases "float_of_number (NUM_EPOCHS_PER_DELAY cfg)")
    case (Inl e)
    with assms q float_of_number_error [OF Inl] show ?thesis by (simp add: decay_steps_def)
  next
    case (Inr y)
    with assms q have "int_of_float (float_mul q y) = Inl (ValueError a)"
      by (simp add: decay_steps_def)
    from int_of_float_error [OF this] show ?thesis by simp
  qed
qed

lemma configure_learning_rate_Inl:
  "decay_steps cfg = Inl e \<Longrightarrow> configure_learning_rate global_step cfg = Inl e"
  by (simp add: configure_learning_rate_def)

lemma decay_steps_cong:
  assumes "NUM_TRAIN_EXAMPLES cfg' = NUM_TRAIN_EXAMPLES cfg"
    and "BATCH_SIZE cfg' = BATCH_SIZE cfg"
    and "NUM_EPOCHS_PER_DELAY cfg' = NUM_EPOCHS_PER_DELAY cfg"
  shows "decay_steps cfg' = decay_steps cfg"
  unfolding decay_steps_def assms by (rule refl)

text \<open>
  Line 48 on concrete configurations. \<open>round_double_eval\<close> evaluates a rounding from its
  exponent and its mantissa. On the sample configuration \<open>1000 / 32 * 2\<close> is exact. With
  \<open>12400 / 48 * 15\<close> the quotient is rounded down, the product stays below 3875, and
  \<open>decay_steps\<close> is 3874. An infinite or NaN number of epochs raises.
\<close>

lemma round_double_eval:
  assumes "x \<noteq> 0"
    and "ilog2 x = e"
    and "max e (- 1022) - 52 = k"
    and "round_half_even (x / pow2 k) = n"
    and "\<bar>of_int n * pow2 k\<bar> < pow2 1024"
  shows "round_double x = Finite (of_int n * pow2 k)"
  using assms by (simp add: round_double_def Let_def)

lemma sample_quotient: "truediv 1000 32 = Inr (Finite (125 / 4))"
proof -
  have "round_double (125 / 4) = Finite (of_int 8796093022208000 * pow2 (- 48))"
  proof (rule round_double_eval)
    show "ilog2 (125 / 4) = 4" by code_simp
    show "round_half_even (125 / 4 / pow2 (- 48)) = 8796093022208000" by code_simp
  qed (simp_all add: pow2_def)
  then show ?thesis by (simp add: truediv_def pow2_def)
qed

lemma sample_epochs: "float_of_number (PyInt 2) = Inr (Finite 2)"
proof -
  have "round_double 2 = Finite (of_int 4503599627370496 * pow2 (- 51))"
  proof (rule round_double_eval)
    show "ilog2 2 = 1" by code_simp
    show "round_half_even (2 / pow2 (- 51)) = 4503599627370496" by code_simp
  qed (simp_all add: pow2_def)
  then show ?thesis by (simp add: float_of_number_def pow2_def)
qed

lemma sample_product: "float_mul (Finite (125 / 4)) (Finite 2) = Finite (125 / 2)"
proof -
  have "round_double (125 / 2) = Finite (of_int 8796093022208000 * pow2 (- 47))"
  proof (rule round_double_eval)
    show "ilog2 (125 / 2) = 5" by code_simp
    show "round_half_even (125 / 2 / pow2 (- 47)) = 8796093022208000" by code_simp
  qed (simp_all add: pow2_def)
  then show ?thesis by (simp add: pow2_def)
qed

lemma sample_decay_steps: "decay_steps sample_cfg = Inr 62"
proof -
  have "int_of_float (Finite (125 / 2)) = Inr 62"
    by (simp add: int_of_float_def floor_unique)
  then show ?thesis
    unfolding decay_steps_def sample_cfg_def
    by (simp add: sample_quotient sample_epochs sample_product del: float_mul.simps)
qed

lemma rounding_quotient: "truediv 12400 48 = Inr (Finite (4544648061474133 / 17592186044416))"
proof -
  have "round_double (12400 / 48) = Finite (of_int 4544648061474133 * pow2 (- 44))"
  proof (rule round_double_eval)
    show "ilog2 (12400 / 48) = 8" by code_simp
    show "round_half_even (12400 / 48 / pow2 (- 44)) = 4544648061474133" by code_simp
  qed (simp_all add: pow2_def)
  then show ?thesis by (simp add: truediv_def pow2_def)
qed

lemma rounding_epochs: "float_of_number (PyInt 15) = Inr (Finite 15)"
proof -
  have "round_double 15 = Finite (of_int 8444249301319680 * pow2 (- 49))"
  proof (rule round_double_eval)
    show "ilog2 15 = 3" by code_simp
    show "round_half_even (15 / pow2 (- 49)) = 8444249301319680" by code_simp
  qed (simp_all add: pow2_def)
  then show ?thesis by (simp add: float_of_number_def pow2_def)
qed

lemma rounding_product:
  "float_mul (Finite (4544648061474133 / 17592186044416)) (Finite 15) =
     Finite (8521215115263999 / 2199023255552)"
proof -
  have "round_double (4544648061474133 / 17592186044416 * 15) =
          Finite (of_int 8521215115263999 * pow2 (- 41))"
  proof (rule round_double_eval)
    show "ilog2 (4544648061474133 / 17592186044416 * 15) = 11" by code_simp
    show "round_half_even (4544648061474133 / 17592186044416 * 15 / pow2 (- 41)) =
            8521215115263999"
      by code_simp
  qed (simp_all add: pow2_def)
  then show ?thesis by (simp add: pow2_def)
qed

lemma rounding_decay_steps:
  "decay_steps (sample_cfg\<lparr>NUM_TRAIN_EXAMPLES := 12400, BATCH_SIZE := 48,
                            NUM_EPOCHS_PER_DELAY := PyInt 15\<rparr>) = Inr 3874"
proof -
  have "int_of_float (Finite (8521215115263999 / 2199023255552)) = Inr 3874"
    by (simp add: int_of_float_def floor_unique)
  then show ?thesis
    unfolding decay_steps_def sample_cfg_def
    by (simp add: rounding_quotient rounding_epochs rounding_product del: float_mul.simps)
qed

lemma overflow_decay_steps:
  "decay_steps (sample_cfg\<lparr>NUM_EPOCHS_PER_DELAY := PyFloat (Inf True)\<rparr>) = Inl OverflowError"
  unfolding decay_steps_def sample_cfg_def
  by (simp add: sample_quotient float_of_number_def int_of_float_def)

lemma nan_decay_steps:
  "decay_steps (sample_cfg\<lparr>NUM_EPOCHS_PER_DELAY := PyFloat NaN\<rparr>) =
     Inl (ValueError [''cannot convert float NaN to integer''])"
  unfolding decay_steps_def sample_cfg_def
  by (simp add: sample_quotient float_of_number_def int_of_float_def)

lemma sample_learning_rate:
  "configure_learning_rate get_or_create_global_step sample_cfg =
     Inr (exponential_decay (1 / 100) get_or_create_global_step 62 (94 / 100) True
            ''exponential_decay_learning_rate'')"
  by (simp add: configure_learning_rate_def sample_decay_steps) (simp add: sample_cfg_def)

text \<open>A scope without special characters is matched as a prefix.\<close>

lemma parse_literal:
  "\<not> list_ex special s \<Longrightarrow> parse s = Some (map (\<lambda>c. One (Lit c)) s)"
  by (induction s rule: parse.induct) (auto simp: special_def)

lemma matches_literal: "matches (map (\<lambda>c. One (Lit c)) s) t \<longleftrightarrow> prefix s t"
proof (induction s arbitrary: t)
  case Nil
  show ?case by simp
next
  case (Cons c s)
  show ?case by (cases t) (auto simp: Cons.IH)
qed

lemma re_compile_literal:
  assumes "\<not> list_ex special s"
  shows "re_compile other s = Some (prefix s)"
proof -
  from assms have "\<not> list_ex other_special s"
    by (auto simp: list_ex_iff special_def)
  moreover have "matches (map (\<lambda>c. One (Lit c)) s) = prefix s"
    by (rule ext) (rule matches_literal)
  ultimately show ?thesis
    by (simp add: re_compile_def parse_literal [OF assms])
qed

lemma get_collection_literal:
  assumes "\<not> list_ex special scope"
  shows "get_collection fw scope =
           Inr (filter (\<lambda>item. prefix scope (name item)) (trainable_variables fw))"
  by (simp add: get_collection_def trainable_variables_def re_compile_literal [OF assms]
      split: option.splits)

lemma extend_scopes_literal:
  assumes "\<forall>scope \<in> set scopes. \<not> list_ex special scope"
  shows "extend_scopes fw scopes acc =
           Inr (acc @ concat (map (\<lambda>scope. filter (\<lambda>item. prefix scope (name item))
                                               (trainable_variables fw)) scopes))"
  using assms
proof (induction scopes arbitrary: acc)
  case Nil
  show ?case by simp
next
  case (Cons scope scopes)
  then show ?case by (simp add: get_collection_literal)
qed

lemma sample_strip:
  "strip '' InceptionV3/Logits'' = ''InceptionV3/Logits''"
  "strip ''InceptionV3/Aux '' = ''InceptionV3/Aux''"
  "strip ''Missing'' = ''Missing''"
  by (simp_all add: strip_def isspace_def)

text \<open>The loops of \<open>get_init_function\<close> filter the model variables.\<close>

lemma is_excluded_iff:
  "is_excluded exclusions var \<longleftrightarrow> (\<exists>e \<in> set exclusions. prefix e (op_name var))"
  by (induction exclusions) auto

lemma restore_loop_filter:
  "restore_loop exclusions vars acc =
     acc @ filter (\<lambda>var. \<not> is_excluded exclusions var) vars"
  by (induction vars arbitrary: acc) simp_all

lemma exclusions_map_strip:
  "(case ex of None \<Rightarrow> [] | Some scopes \<Rightarrow> if scopes = [] then [] else map strip scopes)
     = map strip (case ex of None \<Rightarrow> [] | Some scopes \<Rightarrow> scopes)"
  by (simp split: option.splits)

lemma get_init_function_Some:
  assumes "get_init_function fw dir path ex = Inr (logged, Some f)"
  shows "\<exists>checkpoint_path.
           f = assign_from_checkpoint_fn checkpoint_path
                 (restore_loop (map strip (case ex of None \<Rightarrow> [] | Some scopes \<Rightarrow> scopes))
                    (get_model_variables fw) [])
                 False"
proof (cases path)
  case None
  with assms show ?thesis by (simp add: get_init_function_def)
next
  case (Some p)
  show ?thesis
  proof (cases "truthy (latest_checkpoint fw dir)")
    case True
    with assms Some show ?thesis by (simp add: get_init_function_def)
  next
    case False
    with assms Some show ?thesis
      unfolding get_init_function_def Let_def exclusions_map_strip
        slim_assign_from_checkpoint_fn_def
      by (auto split: if_splits option.splits)
  qed
qed

text \<open>\<open>train\<close> returns on the sample configuration.\<close>

lemma sample_train_returns:
  "\<not> isl (train sample_framework sample_nets files dir sample_cfg None None None)"
proof -
  have m: "MODEL_NAME sample_cfg = ''inception_v3''" "OPTIMIZER sample_cfg = ''rmsprop''"
    by (simp_all add: sample_cfg_def)
  show ?thesis
    by (simp add: train_def Let_def sample_learning_rate configure_optimizer_def m
          sample_nets_def sample_framework_def get_trainable_variables_def
          trainable_variables_def slim_learning_create_train_op_def get_init_function_def)
qed

subsection \<open>The learning-rate schedules\<close>

text \<open>
  Claim C1, as stated, at a configuration with \<open>BATCH_SIZE = 0\<close> and decay type
  \<open>'fixed'\<close>: the function raises \<open>ZeroDivisionError\<close> and returns no constant tensor.
\<close>

theorem configure_learning_rate_fixed_counterexample:
  "LEARNING_RATE_DECAY_TYPE
       (sample_cfg\<lparr>LEARNING_RATE_DECAY_TYPE := ''fixed'', BATCH_SIZE := 0\<rparr>) = ''fixed''
   \<and> configure_learning_rate ()
        (sample_cfg\<lparr>LEARNING_RATE_DECAY_TYPE := ''fixed'', BATCH_SIZE := 0\<rparr>)
       = Inl ZeroDivisionError
   \<and> configure_learning_rate ()
        (sample_cfg\<lparr>LEARNING_RATE_DECAY_TYPE := ''fixed'', BATCH_SIZE := 0\<rparr>)
       \<noteq> Inr (tf_constant
                (INITIAL_LEARNING_RATE
                   (sample_cfg\<lparr>LEARNING_RATE_DECAY_TYPE := ''fixed'', BATCH_SIZE := 0\<rparr>))
                ''fixed_learning_rate'')"
  by (simp add: configure_learning_rate_Inl [OF decay_steps_zero])

text \<open>
  Claim C1, amended. For every configuration on which line 48 evaluates to an integer
  \<open>steps = int(NUM_TRAIN_EXAMPLES / BATCH_SIZE * NUM_EPOCHS_PER_DELAY)\<close>, that is, on
  which it raises neither \<open>ZeroDivisionError\<close> nor \<open>OverflowError\<close> nor \<open>ValueError\<close>:
  \<open>'exponential'\<close> gives \<open>tf.train.exponential_decay\<close> and \<open>'polynomial'\<close> gives
  \<open>tf.train.polynomial_decay\<close>, both with \<open>decay_steps = steps\<close>, and \<open>'fixed'\<close> gives
  a constant tensor that holds \<open>INITIAL_LEARNING_RATE\<close>.
\<close>

theorem configure_learning_rate_maps:
  assumes "decay_steps cfg = Inr steps"
  shows "(LEARNING_RATE_DECAY_TYPE cfg = ''exponential'' \<longrightarrow>
         configure_learning_rate global_step cfg =
           Inr (exponential_decay (INITIAL_LEARNING_RATE cfg) global_step steps
                  (LEARNING_RATE_DECAY_FACTOR cfg) (LEARNING_RATE_STAIRCASE cfg)
                  ''exponential_decay_learning_rate''))
    \<and> (LEARNING_RATE_DECAY_TYPE cfg = ''fixed'' \<longrightarrow>
         configure_learning_rate global_step cfg =
           Inr (tf_constant (INITIAL_LEARNING_RATE cfg) ''fixed_learning_rate''))
    \<and> (LEARNING_RATE_DECAY_TYPE cfg = ''polynomial'' \<longrightarrow>
         configure_learning_rate global_step cfg =
           Inr (polynomial_decay (INITIAL_LEARNING_RATE cfg) global_step steps
                  (END_LEARNING_RATE cfg) 1 False ''polynomial_decay_learning_rate''))"
  using assms by (simp add: configure_learning_rate_def)

theorem configure_learning_rate_maps_witness:
  "decay_steps (sample_cfg\<lparr>NUM_TRAIN_EXAMPLES := 12400, BATCH_SIZE := 48,
                            NUM_EPOCHS_PER_DELAY := PyInt 15\<rparr>) = Inr 3874
   \<and> configure_learning_rate ()
       (sample_cfg\<lparr>NUM_TRAIN_EXAMPLES := 12400, BATCH_SIZE := 48,
                   NUM_EPOCHS_PER_DELAY := PyInt 15\<rparr>) =
       Inr (exponential_decay (1 / 100) () 3874 (94 / 100) True
              ''exponential_decay_learning_rate'')
   \<and> configure_learning_rate ()
       (sample_cfg\<lparr>NUM_TRAIN_EXAMPLES := 12400, BATCH_SIZE := 48,
                   NUM_EPOCHS_PER_DELAY := PyInt 15, LEARNING_RATE_DECAY_TYPE := ''fixed''\<rparr>) =
       Inr (tf_constant (1 / 100) ''fixed_learning_rate'')
   \<and> configure_learning_rate ()
       (sample_cfg\<lparr>NUM_TRAIN_EXAMPLES := 12400, BATCH_SIZE := 48,
                   NUM_EPOCHS_PER_DELAY := PyInt 15,
                   LEARNING_RATE_DECAY_TYPE := ''polynomial''\<rparr>) =
       Inr (polynomial_decay (1 / 100) () 3874 (1 / 10000) 1 False
              ''polynomial_decay_learning_rate'')"
proof -
  let ?c = "sample_cfg\<lparr>NUM_TRAIN_EXAMPLES := 12400, BATCH_SIZE := 48,
                        NUM_EPOCHS_PER_DELAY := PyInt 15\<rparr>"
  have d: "decay_steps ?c = Inr 3874"
    by (rule rounding_decay_steps)
  have d1: "decay_steps (?c\<lparr>LEARNING_RATE_DECAY_TYPE := ''fixed''\<rparr>) = Inr 3874"
    using d decay_steps_cong [of "?c\<lparr>LEARNING_RATE_DECAY_TYPE := ''fixed''\<rparr>" ?c] by simp
  have d2: "decay_steps (?c\<lparr>LEARNING_RATE_DECAY_TYPE := ''polynomial''\<rparr>) = Inr 3874"
    using d decay_steps_cong [of "?c\<lparr>LEARNING_RATE_DECAY_TYPE := ''polynomial''\<rparr>" ?c] by simp
  have e: "LEARNING_RATE_DECAY_TYPE sample_cfg = ''exponential''"
       "INITIAL_LEARNING_RATE sample_cfg = 1 / 100"
       "LEARNING_RATE_DECAY_FACTOR sample_cfg = 94 / 100"
       "LEARNING_RATE_STAIRCASE sample_cfg = True"
       "END_LEARNING_RATE sample_cfg = 1 / 10000"
    by (simp_all add: sample_cfg_def)
  from configure_learning_rate_maps [OF d, of "()"]
       configure_learning_rate_maps [OF d1, of "()"]
       configure_learning_rate_maps [OF d2, of "()"]
  show ?thesis
    using d e by simp
qed

subsection \<open>The optimizers\<close>

text \<open>
  Claim C2, as stated, at a configuration with optimizer \<open>'adagrad'\<close> and
  \<open>ADAGRAD_INITIAL_ACCUMULATOR_VALUE = 0\<close>: the constructor raises \<open>ValueError\<close>, and
  \<open>_configure_optimizer\<close> returns no optimizer.
\<close>

theorem configure_optimizer_adagrad_counterexample:
  "OPTIMIZER (sample_cfg\<lparr>OPTIMIZER := ''adagrad'', ADAGRAD_INITIAL_ACCUMULATOR_VALUE := 0\<rparr>)
     = ''adagrad''
   \<and> configure_optimizer ()
        (sample_cfg\<lparr>OPTIMIZER := ''adagrad'', ADAGRAD_INITIAL_ACCUMULATOR_VALUE := 0\<rparr>)
       = Inl (ValueError [''initial_accumulator_value must be positive: %s''])
   \<and> configure_optimizer ()
        (sample_cfg\<lparr>OPTIMIZER := ''adagrad'', ADAGRAD_INITIAL_ACCUMULATOR_VALUE := 0\<rparr>)
       \<noteq> Inr (AdagradOptimizer () 0)"
  by (simp add: configure_optimizer_def tf_train_AdagradOptimizer_def sample_cfg_def)

text \<open>
  Claim C2, amended. For every configuration and learning rate, each of the seven
  optimizer names gives the optimizer class of that name, built from the learning rate and
  from the hyperparameter fields of that optimizer, and the function returns it, provided
  the constructor accepts the hyperparameters: for \<open>'adagrad'\<close>,
  \<open>ADAGRAD_INITIAL_ACCUMULATOR_VALUE > 0\<close>; for \<open>'ftrl'\<close>,
  \<open>FTRL_INITIAL_ACCUMULATOR_VALUE \<ge> 0\<close>, \<open>FTRL_LEARNING_RATE_POWER \<le> 0\<close>,
  \<open>FTRL_L1 \<ge> 0\<close> and \<open>FTRL_L2 \<ge> 0\<close>. Otherwise the \<open>ValueError\<close> of the constructor
  ends the function.
\<close>

theorem configure_optimizer_maps:
  "(OPTIMIZER cfg = ''adadelta'' \<longrightarrow>
      configure_optimizer lr cfg =
        Inr (AdadeltaOptimizer lr (ADADELTA_RHO cfg) (OPTIMIZER_EPSILON cfg)))
   \<and> (OPTIMIZER cfg = ''adagrad'' \<and> 0 < ADAGRAD_INITIAL_ACCUMULATOR_VALUE cfg \<longrightarrow>
      configure_optimizer lr cfg =
        Inr (AdagradOptimizer lr (ADAGRAD_INITIAL_ACCUMULATOR_VALUE cfg)))
   \<and> (OPTIMIZER cfg = ''adam'' \<longrightarrow>
      configure_optimizer lr cfg =
        Inr (AdamOptimizer lr (ADAM_BETA1 cfg) (ADAM_BETA2 cfg) (OPTIMIZER_EPSILON cfg)))
   \<and> (OPTIMIZER cfg = ''ftrl'' \<and> 0 \<le> FTRL_INITIAL_ACCUMULATOR_VALUE cfg
        \<and> FTRL_LEARNING_RATE_POWER cfg \<le> 0 \<and> 0 \<le> FTRL_L1 cfg \<and> 0 \<le> FTRL_L2 cfg \<longrightarrow>
      configure_optimizer lr cfg =
        Inr (FtrlOptimizer lr (FTRL_LEARNING_RATE_POWER cfg)
               (FTRL_INITIAL_ACCUMULATOR_VALUE cfg) (FTRL_L1 cfg) (FTRL_L2 cfg)))
   \<and> (OPTIMIZER cfg = ''momentum'' \<longrightarrow>
      configure_optimizer lr cfg = Inr (MomentumOptimizer lr (MOMENTUM cfg) ''Momentum''))
   \<and> (OPTIMIZER cfg = ''rmsprop'' \<longrightarrow>
      configure_optimizer lr cfg =
        Inr (RMSPropOptimizer lr (RMSPROP_DECAY cfg) (MOMENTUM cfg) (OPTIMIZER_EPSILON cfg)))
   \<and> (OPTIMIZER cfg = ''sgd'' \<longrightarrow>
      configure_optimizer lr cfg = Inr (GradientDescentOptimizer lr))
   \<and> (OPTIMIZER cfg = ''adagrad'' \<and> ADAGRAD_INITIAL_ACCUMULATOR_VALUE cfg \<le> 0 \<longrightarrow>
      is_ValueError (configure_optimizer lr cfg))
   \<and> (OPTIMIZER cfg = ''ftrl'' \<and> (FTRL_INITIAL_ACCUMULATOR_VALUE cfg < 0
        \<or> 0 < FTRL_LEARNING_RATE_POWER cfg \<or> FTRL_L1 cfg < 0 \<or> FTRL_L2 cfg < 0) \<longrightarrow>
      is_ValueError (configure_optimizer lr cfg))"
  by (simp add: configure_optimizer_def tf_train_AdagradOptimizer_def
        tf_train_FtrlOptimizer_def is_ValueError_def)

theorem configure_optimizer_maps_witness:
  "configure_optimizer (0::nat) (sample_cfg\<lparr>OPTIMIZER := ''adadelta''\<rparr>) =
     Inr (AdadeltaOptimizer 0 (95 / 100) 1)
   \<and> configure_optimizer (0::nat) (sample_cfg\<lparr>OPTIMIZER := ''adagrad''\<rparr>) =
     Inr (AdagradOptimizer 0 (1 / 10))
   \<and> configure_optimizer (0::nat) (sample_cfg\<lparr>OPTIMIZER := ''adam''\<rparr>) =
     Inr (AdamOptimizer 0 (9 / 10) (999 / 1000) 1)
   \<and> configure_optimizer (0::nat) (sample_cfg\<lparr>OPTIMIZER := ''ftrl''\<rparr>) =
     Inr (FtrlOptimizer 0 (- 1 / 2) (1 / 10) 0 0)
   \<and> configure_optimizer (0::nat) (sample_cfg\<lparr>OPTIMIZER := ''momentum''\<rparr>) =
     Inr (MomentumOptimizer 0 (9 / 10) ''Momentum'')
   \<and> configure_optimizer (0::nat) (sample_cfg\<lparr>OPTIMIZER := ''rmsprop''\<rparr>) =
     Inr (RMSPropOptimizer 0 (9 / 10) (9 / 10) 1)
   \<and> configure_optimizer (0::nat) (sample_cfg\<lparr>OPTIMIZER := ''sgd''\<rparr>) =
     Inr (GradientDescentOptimizer 0)
   \<and> is_ValueError (configure_optimizer (0::nat)
        (sample_cfg\<lparr>OPTIMIZER := ''adagrad'', ADAGRAD_INITIAL_ACCUMULATOR_VALUE := - 1\<rparr>))
   \<and> is_ValueError (configure_optimizer (0::nat)
        (sample_cfg\<lparr>OPTIMIZER := ''ftrl'', FTRL_L1 := - 1\<rparr>))"
  using configure_optimizer_maps [of "sample_cfg\<lparr>OPTIMIZER := ''adadelta''\<rparr>" "0::nat"]
        configure_optimizer_maps [of "sample_cfg\<lparr>OPTIMIZER := ''adagrad''\<rparr>" "0::nat"]
        configure_optimizer_maps [of "sample_cfg\<lparr>OPTIMIZER := ''adam''\<rparr>" "0::nat"]
        configure_optimizer_maps [of "sample_cfg\<lparr>OPTIMIZER := ''ftrl''\<rparr>" "0::nat"]
        configure_optimizer_maps [of "sample_cfg\<lparr>OPTIMIZER := ''momentum''\<rparr>" "0::nat"]
        configure_optimizer_maps [of "sample_cfg\<lparr>OPTIMIZER := ''rmsprop''\<rparr>" "0::nat"]
        configure_optimizer_maps [of "sample_cfg\<lparr>OPTIMIZER := ''sgd''\<rparr>" "0::nat"]
        configure_optimizer_maps
          [of "sample_cfg\<lparr>OPTIMIZER := ''adagrad'', ADAGRAD_INITIAL_ACCUMULATOR_VALUE := - 1\<rparr>"
              "0::nat"]
        configure_optimizer_maps [of "sample_cfg\<lparr>OPTIMIZER := ''ftrl'', FTRL_L1 := - 1\<rparr>" "0::nat"]
  by (simp add: sample_cfg_def)

subsection \<open>Unrecognised flags\<close>

text \<open>
  Claim C3, as stated, fails in both directions. With an unrecognised decay type and
  \<open>BATCH_SIZE = 0\<close>, \<open>_configure_learning_rate\<close> raises \<open>ZeroDivisionError\<close>, which is
  not a \<open>ValueError\<close>. With a recognised decay type and a NaN number of epochs it raises
  a \<open>ValueError\<close>, and so does \<open>_configure_optimizer\<close> with the recognised optimizer
  \<open>'adagrad'\<close> and \<open>ADAGRAD_INITIAL_ACCUMULATOR_VALUE = 0\<close>.
\<close>

theorem configure_errors_counterexample:
  "LEARNING_RATE_DECAY_TYPE
       (sample_cfg\<lparr>LEARNING_RATE_DECAY_TYPE := ''cosine'', BATCH_SIZE := 0\<rparr>) \<notin> decay_types
   \<and> \<not> is_ValueError (configure_learning_rate ()
           (sample_cfg\<lparr>LEARNING_RATE_DECAY_TYPE := ''cosine'', BATCH_SIZE := 0\<rparr>))
   \<and> configure_learning_rate ()
        (sample_cfg\<lparr>LEARNING_RATE_DECAY_TYPE := ''cosine'', BATCH_SIZE := 0\<rparr>)
       = Inl ZeroDivisionError
   \<and> LEARNING_RATE_DECAY_TYPE (sample_cfg\<lparr>NUM_EPOCHS_PER_DELAY := PyFloat NaN\<rparr>) \<in> decay_types
   \<and> is_ValueError (configure_learning_rate ()
         (sample_cfg\<lparr>NUM_EPOCHS_PER_DELAY := PyFloat NaN\<rparr>))
   \<and> OPTIMIZER (sample_cfg\<lparr>OPTIMIZER := ''adagrad'', ADAGRAD_INITIAL_ACCUMULATOR_VALUE := 0\<rparr>)
       \<in> optimizers
   \<and> is_ValueError (configure_optimizer ()
         (sample_cfg\<lparr>OPTIMIZER := ''adagrad'', ADAGRAD_INITIAL_ACCUMULATOR_VALUE := 0\<rparr>))"
proof -
  have a: "configure_learning_rate ()
        (sample_cfg\<lparr>LEARNING_RATE_DECAY_TYPE := ''cosine'', BATCH_SIZE := 0\<rparr>)
       = Inl ZeroDivisionError"
    by (simp add: configure_learning_rate_Inl [OF decay_steps_zero])
  have b: "configure_learning_rate () (sample_cfg\<lparr>NUM_EPOCHS_PER_DELAY := PyFloat NaN\<rparr>)
       = Inl (ValueError [''cannot convert float NaN to integer''])"
    by (rule configure_learning_rate_Inl [OF nan_decay_steps])
  have c: "configure_optimizer ()
        (sample_cfg\<lparr>OPTIMIZER := ''adagrad'', ADAGRAD_INITIAL_ACCUMULATOR_VALUE := 0\<rparr>)
       = Inl (ValueError [''initial_accumulator_value must be positive: %s''])"
    by (simp add: configure_optimizer_def tf_train_AdagradOptimizer_def sample_cfg_def)
  show ?thesis
    unfolding a b c
    by (simp add: is_ValueError_def decay_types_def optimizers_def sample_cfg_def)
qed

text \<open>
  Claim C3, amended. \<open>_configure_learning_rate\<close> raises the \<open>ValueError\<close> that names
  \<open>LEARNING_RATE_DECAY_TYPE\<close> if and only if line 48 raises nothing and the decay type
  is none of \<open>exponential\<close>, \<open>fixed\<close>, \<open>polynomial\<close>. \<open>_configure_optimizer\<close> raises
  the \<open>ValueError\<close> that names \<open>OPTIMIZER\<close> if and only if the optimizer is none of the
  seven names. Each of these errors is the whole result (nothing is returned) and
  carries the offending string as its second argument.
\<close>

theorem configure_errors:
  "(configure_learning_rate global_step cfg =
      Inl (ValueError [''learning_rate_decay_type [%s] was not recognized'',
                       LEARNING_RATE_DECAY_TYPE cfg])
      \<longleftrightarrow> \<not> isl (decay_steps cfg) \<and> LEARNING_RATE_DECAY_TYPE cfg \<notin> decay_types)
   \<and> (configure_optimizer lr cfg =
      Inl (ValueError [''Optimizer [%s] was not recognized'', OPTIMIZER cfg])
      \<longleftrightarrow> OPTIMIZER cfg \<notin> optimizers)"
proof (intro conjI)
  show "configure_learning_rate global_step cfg =
      Inl (ValueError [''learning_rate_decay_type [%s] was not recognized'',
                       LEARNING_RATE_DECAY_TYPE cfg])
      \<longleftrightarrow> \<not> isl (decay_steps cfg) \<and> LEARNING_RATE_DECAY_TYPE cfg \<notin> decay_types"
  proof (cases "decay_steps cfg")
    case (Inl e)
    have "e \<noteq> ValueError [''learning_rate_decay_type [%s] was not recognized'',
                          LEARNING_RATE_DECAY_TYPE cfg]"
      using decay_steps_ValueError [of cfg] Inl by auto
    with Inl show ?thesis by (simp add: configure_learning_rate_def)
  next
    case (Inr steps)
    then show ?thesis by (simp add: configure_learning_rate_def decay_types_def)
  qed
  show "configure_optimizer lr cfg =
      Inl (ValueError [''Optimizer [%s] was not recognized'', OPTIMIZER cfg])
      \<longleftrightarrow> OPTIMIZER cfg \<notin> optimizers"
    by (simp add: configure_optimizer_def optimizers_def tf_train_AdagradOptimizer_def
          tf_train_FtrlOptimizer_def)
qed

theorem configure_errors_witness:
  "\<not> isl (decay_steps (sample_cfg\<lparr>LEARNING_RATE_DECAY_TYPE := ''cosine'', OPTIMIZER := ''lamb''\<rparr>))
   \<and> ''cosine'' \<notin> decay_types
   \<and> ''lamb'' \<notin> optimizers
   \<and> configure_learning_rate ()
        (sample_cfg\<lparr>LEARNING_RATE_DECAY_TYPE := ''cosine'', OPTIMIZER := ''lamb''\<rparr>)
       = Inl (ValueError [''learning_rate_decay_type [%s] was not recognized'', ''cosine''])
   \<and> configure_optimizer ()
        (sample_cfg\<lparr>LEARNING_RATE_DECAY_TYPE := ''cosine'', OPTIMIZER := ''lamb''\<rparr>)
       = Inl (ValueError [''Optimizer [%s] was not recognized'', ''lamb''])
   \<and> ''exponential'' \<in> decay_types
   \<and> ''rmsprop'' \<in> optimizers
   \<and> configure_learning_rate () sample_cfg
       \<noteq> Inl (ValueError [''learning_rate_decay_type [%s] was not recognized'',
                           ''exponential''])
   \<and> configure_optimizer () sample_cfg
       \<noteq> Inl (ValueError [''Optimizer [%s] was not recognized'', ''rmsprop''])"
proof -
  let ?c = "sample_cfg\<lparr>LEARNING_RATE_DECAY_TYPE := ''cosine'', OPTIMIZER := ''lamb''\<rparr>"
  have d: "decay_steps ?c = Inr 62"
    using sample_decay_steps decay_steps_cong [of ?c sample_cfg] by simp
  have f: "LEARNING_RATE_DECAY_TYPE ?c = ''cosine''" "OPTIMIZER ?c = ''lamb''"
          "LEARNING_RATE_DECAY_TYPE sample_cfg = ''exponential''"
          "OPTIMIZER sample_cfg = ''rmsprop''"
    by (simp_all add: sample_cfg_def)
  from configure_errors [of "()" ?c "()"] configure_errors [of "()" sample_cfg "()"]
  show ?thesis
    unfolding d sample_decay_steps f
    by (simp add: decay_types_def optimizers_def)
qed

subsection \<open>Division by zero in the learning-rate configuration\<close>

text \<open>
  Claim C10. \<open>_configure_learning_rate\<close> computes \<open>decay_steps\<close> before it looks at the
  decay type. So with \<open>BATCH_SIZE = 0\<close> it raises \<open>ZeroDivisionError\<close> whatever the decay
  type is, also for \<open>'fixed'\<close>, which does not use \<open>decay_steps\<close>; whenever it returns a
  tensor, \<open>BATCH_SIZE\<close> is not zero; and with \<open>BATCH_SIZE \<noteq> 0\<close> it never raises
  \<open>ZeroDivisionError\<close>.
\<close>

theorem configure_learning_rate_batch_size:
  "(BATCH_SIZE cfg = 0 \<longrightarrow> configure_learning_rate global_step cfg = Inl ZeroDivisionError)
   \<and> (BATCH_SIZE cfg = 0 \<longrightarrow>
        configure_learning_rate global_step (cfg\<lparr>LEARNING_RATE_DECAY_TYPE := ''fixed''\<rparr>)
          = Inl ZeroDivisionError)
   \<and> (configure_learning_rate global_step cfg = Inr t \<longrightarrow> BATCH_SIZE cfg \<noteq> 0)
   \<and> (BATCH_SIZE cfg \<noteq> 0 \<longrightarrow> configure_learning_rate global_step cfg \<noteq> Inl ZeroDivisionError)"
proof (cases "BATCH_SIZE cfg = 0")
  case True
  then show ?thesis
    by (simp add: configure_learning_rate_Inl [OF decay_steps_zero])
next
  case False
  from decay_steps_nonzero [OF False] have "configure_learning_rate global_step cfg \<noteq> Inl ZeroDivisionError"
    by (cases "decay_steps cfg") (simp_all add: configure_learning_rate_def)
  with False show ?thesis by simp
qed

theorem configure_learning_rate_batch_size_witness:
  "BATCH_SIZE (sample_cfg\<lparr>BATCH_SIZE := 0\<rparr>) = 0
   \<and> configure_learning_rate () (sample_cfg\<lparr>BATCH_SIZE := 0\<rparr>) = Inl ZeroDivisionError
   \<and> configure_learning_rate ()
        (sample_cfg\<lparr>BATCH_SIZE := 0, LEARNING_RATE_DECAY_TYPE := ''fixed''\<rparr>)
       = Inl ZeroDivisionError
   \<and> BATCH_SIZE (sample_cfg\<lparr>LEARNING_RATE_DECAY_TYPE := ''fixed''\<rparr>) \<noteq> 0
   \<and> configure_learning_rate () (sample_cfg\<lparr>LEARNING_RATE_DECAY_TYPE := ''fixed''\<rparr>)
       = Inr (tf_constant (1 / 100) ''fixed_learning_rate'')
   \<and> configure_learning_rate () (sample_cfg\<lparr>LEARNING_RATE_DECAY_TYPE := ''fixed''\<rparr>)
       \<noteq> Inl ZeroDivisionError"
proof -
  have d: "decay_steps (sample_cfg\<lparr>LEARNING_RATE_DECAY_TYPE := ''fixed''\<rparr>) = Inr 62"
    using sample_decay_steps
      decay_steps_cong [of "sample_cfg\<lparr>LEARNING_RATE_DECAY_TYPE := ''fixed''\<rparr>" sample_cfg]
    by simp
  have r: "configure_learning_rate () (sample_cfg\<lparr>LEARNING_RATE_DECAY_TYPE := ''fixed''\<rparr>)
       = Inr (tf_constant (1 / 100) ''fixed_learning_rate'')"
    by (simp add: configure_learning_rate_def d) (simp add: sample_cfg_def)
  have b: "BATCH_SIZE (sample_cfg\<lparr>BATCH_SIZE := 0\<rparr>) = 0"
          "BATCH_SIZE (sample_cfg\<lparr>LEARNING_RATE_DECAY_TYPE := ''fixed''\<rparr>) \<noteq> 0"
    by (simp_all add: sample_cfg_def)
  from configure_learning_rate_batch_size
          [of "sample_cfg\<lparr>BATCH_SIZE := 0\<rparr>" "()" "tf_constant (1 / 100) ''fixed_learning_rate''"]
        configure_learning_rate_batch_size
          [of "sample_cfg\<lparr>LEARNING_RATE_DECAY_TYPE := ''fixed''\<rparr>" "()"
              "tf_constant (1 / 100) ''fixed_learning_rate''"]
  show ?thesis using b r by simp
qed

subsection \<open>The variables to train\<close>

text \<open>
  Claim C4, as stated, at the scope \<open>InceptionV3/.*Logits\<close>: the scope is a regular
  expression, and the two variables returned have names that do not start with the
  scope. At the scope \<open>*Logits\<close>, which does not compile, nothing is returned.
\<close>

theorem get_trainable_variables_regex_counterexample:
  "strip ''InceptionV3/.*Logits'' = ''InceptionV3/.*Logits''
   \<and> get_trainable_variables sample_framework (Some [''InceptionV3/.*Logits'']) =
       Inr [\<lparr>name = ''InceptionV3/Logits/weights:0'', op_name = ''InceptionV3/Logits/weights''\<rparr>,
            \<lparr>name = ''InceptionV3/AuxLogits/weights:0'',
             op_name = ''InceptionV3/AuxLogits/weights''\<rparr>]
   \<and> \<not> prefix ''InceptionV3/.*Logits'' ''InceptionV3/Logits/weights:0''
   \<and> \<not> prefix ''InceptionV3/.*Logits'' ''InceptionV3/AuxLogits/weights:0''
   \<and> get_trainable_variables sample_framework (Some [''*Logits'']) = Inl re_error"
proof -
  have s: "strip ''InceptionV3/.*Logits'' = ''InceptionV3/.*Logits''"
          "strip ''*Logits'' = ''*Logits''"
    by (simp_all add: strip_def isspace_def)
  have p: "parse ''InceptionV3/.*Logits'' =
      Some [One (Lit CHR ''I''), One (Lit CHR ''n''), One (Lit CHR ''c''), One (Lit CHR ''e''),
            One (Lit CHR ''p''), One (Lit CHR ''t''), One (Lit CHR ''i''), One (Lit CHR ''o''),
            One (Lit CHR ''n''), One (Lit CHR ''V''), One (Lit CHR ''3''), One (Lit CHR ''/''),
            Star Dot, One (Lit CHR ''L''), One (Lit CHR ''o''), One (Lit CHR ''g''),
            One (Lit CHR ''i''), One (Lit CHR ''t''), One (Lit CHR ''s'')]"
    by simp
  have q: "parse ''*Logits'' = None"
    by simp
  show ?thesis
    by (simp add: get_trainable_variables_def get_collection_def re_compile_def
          other_special_def s p q sample_framework_def)
qed

text \<open>
  Claim C4, amended. Without scopes, \<open>get_trainable_variables\<close> returns the list of
  trainable variables. With scopes of which none, stripped of whitespace, has a special
  character of regular expressions, it returns exactly the trainable variables whose name
  starts with one of the stripped scopes: none from outside, none left out. (The list has
  a variable once for each scope that matches it.)
\<close>

theorem get_trainable_variables_prefixes:
  "get_trainable_variables fw None = Inr (trainable_variables fw)
   \<and> ((\<forall>scope \<in> set scopes. \<not> list_ex special (strip scope)) \<longrightarrow>
        (\<exists>variables.
           get_trainable_variables fw (Some scopes) = Inr variables
           \<and> set variables =
               {var \<in> set (trainable_variables fw).
                  \<exists>scope \<in> set scopes. prefix (strip scope) (name var)}))"
proof (intro conjI impI)
  show "get_trainable_variables fw None = Inr (trainable_variables fw)"
    by (simp add: get_trainable_variables_def)
next
  assume "\<forall>scope \<in> set scopes. \<not> list_ex special (strip scope)"
  then have "\<forall>scope \<in> set (map strip scopes). \<not> list_ex special scope"
    by simp
  from extend_scopes_literal [OF this, of fw "[]"]
  have "get_trainable_variables fw (Some scopes) =
          Inr (concat (map (\<lambda>scope. filter (\<lambda>item. prefix scope (name item))
                                        (trainable_variables fw)) (map strip scopes)))"
    by (simp add: get_trainable_variables_def)
  moreover have "set (concat (map (\<lambda>scope. filter (\<lambda>item. prefix scope (name item))
                                        (trainable_variables fw)) (map strip scopes))) =
      {var \<in> set (trainable_variables fw).
         \<exists>scope \<in> set scopes. prefix (strip scope) (name var)}"
    by auto
  ultimately show "\<exists>variables.
           get_trainable_variables fw (Some scopes) = Inr variables
           \<and> set variables =
               {var \<in> set (trainable_variables fw).
                  \<exists>scope \<in> set scopes. prefix (strip scope) (name var)}"
    by blast
qed

theorem get_trainable_variables_prefixes_witness:
  "\<not> list_ex special (strip '' InceptionV3/Logits'')
   \<and> \<not> list_ex special (strip ''InceptionV3/Aux '')
   \<and> \<not> list_ex special (strip ''Missing'')
   \<and> get_trainable_variables sample_framework None = Inr (trainable_variables sample_framework)
   \<and> get_trainable_variables sample_framework
        (Some ['' InceptionV3/Logits'', ''InceptionV3/Aux '', ''Missing'']) =
       Inr [\<lparr>name = ''InceptionV3/Logits/weights:0'', op_name = ''InceptionV3/Logits/weights''\<rparr>,
            \<lparr>name = ''InceptionV3/AuxLogits/weights:0'',
             op_name = ''InceptionV3/AuxLogits/weights''\<rparr>]
   \<and> set [\<lparr>name = ''InceptionV3/Logits/weights:0'', op_name = ''InceptionV3/Logits/weights''\<rparr>,
           \<lparr>name = ''InceptionV3/AuxLogits/weights:0'',
            op_name = ''InceptionV3/AuxLogits/weights''\<rparr>] =
       {var \<in> set (trainable_variables sample_framework).
          \<exists>scope \<in> set ['' InceptionV3/Logits'', ''InceptionV3/Aux '', ''Missing''].
            prefix (strip scope) (name var)}"
proof -
  let ?scopes = "['' InceptionV3/Logits'', ''InceptionV3/Aux '', ''Missing'']"
  note th = get_trainable_variables_prefixes [of sample_framework ?scopes]
  have l: "\<not> list_ex special (strip '' InceptionV3/Logits'')"
          "\<not> list_ex special (strip ''InceptionV3/Aux '')"
          "\<not> list_ex special (strip ''Missing'')"
    unfolding sample_strip by (simp_all add: special_def other_special_def)
  then have h: "\<forall>scope \<in> set ?scopes. \<not> list_ex special (strip scope)"
    by simp
  have ev: "get_trainable_variables sample_framework (Some ?scopes) =
       Inr [\<lparr>name = ''InceptionV3/Logits/weights:0'', op_name = ''InceptionV3/Logits/weights''\<rparr>,
            \<lparr>name = ''InceptionV3/AuxLogits/weights:0'',
             op_name = ''InceptionV3/AuxLogits/weights''\<rparr>]"
    using l unfolding sample_strip
    by (simp add: get_trainable_variables_def sample_strip get_collection_literal
          trainable_variables_def sample_framework_def)
  from th h obtain variables where
    v: "get_trainable_variables sample_framework (Some ?scopes) = Inr variables"
    and s: "set variables =
       {var \<in> set (trainable_variables sample_framework).
          \<exists>scope \<in> set ?scopes. prefix (strip scope) (name var)}"
    by blast
  from v ev have "variables =
       [\<lparr>name = ''InceptionV3/Logits/weights:0'', op_name = ''InceptionV3/Logits/weights''\<rparr>,
        \<lparr>name = ''InceptionV3/AuxLogits/weights:0'',
         op_name = ''InceptionV3/AuxLogits/weights''\<rparr>]"
    by simp
  with s have s': "set [\<lparr>name = ''InceptionV3/Logits/weights:0'',
                         op_name = ''InceptionV3/Logits/weights''\<rparr>,
           \<lparr>name = ''InceptionV3/AuxLogits/weights:0'',
            op_name = ''InceptionV3/AuxLogits/weights''\<rparr>] =
       {var \<in> set (trainable_variables sample_framework).
          \<exists>scope \<in> set ?scopes. prefix (strip scope) (name var)}"
    by (simp only:)
  show ?thesis
    by (intro conjI l conjunct1 [OF th] ev s')
qed

subsection \<open>The variables to restore\<close>

text \<open>
  Claim C5. Whenever \<open>get_init_function\<close> returns a function that restores from a
  checkpoint, the variables it restores are the model variables, in their order, whose
  \<open>op.name\<close> starts with none of the exclusion scopes, each scope stripped of
  whitespace.
\<close>

theorem get_init_function_restores:
  assumes "get_init_function fw dir path ex =
             Inr (logged, Some (assign_from_checkpoint_fn checkpoint_path restored flag))"
    and "exclusions = map strip (case ex of None \<Rightarrow> [] | Some scopes \<Rightarrow> scopes)"
  shows "restored =
           filter (\<lambda>var. \<not> (\<exists>e \<in> set exclusions. prefix e (op_name var)))
             (get_model_variables fw)"
proof -
  from get_init_function_Some [OF assms(1)]
  have "restored = restore_loop exclusions (get_model_variables fw) []"
    using assms(2) by simp
  then show ?thesis
    by (simp only: restore_loop_filter is_excluded_iff append_Nil)
qed

theorem get_init_function_restores_witness:
  "get_init_function sample_framework ''/logs'' (Some ''/models/inception'')
       (Some ['' InceptionV3/Logits'', ''InceptionV3/Aux '']) =
     Inr ([''Fine-tuning from /models/inception/model.ckpt-100''],
          Some (assign_from_checkpoint_fn ''/models/inception/model.ckpt-100''
            [\<lparr>name = ''InceptionV3/Conv2d_1a/weights:0'',
              op_name = ''InceptionV3/Conv2d_1a/weights''\<rparr>,
             \<lparr>name = ''InceptionV3/Conv2d_1a/BatchNorm/moving_mean:0'',
              op_name = ''InceptionV3/Conv2d_1a/BatchNorm/moving_mean''\<rparr>]
            False))
   \<and> [\<lparr>name = ''InceptionV3/Conv2d_1a/weights:0'',
        op_name = ''InceptionV3/Conv2d_1a/weights''\<rparr>,
       \<lparr>name = ''InceptionV3/Conv2d_1a/BatchNorm/moving_mean:0'',
        op_name = ''InceptionV3/Conv2d_1a/BatchNorm/moving_mean''\<rparr>] =
      filter (\<lambda>var. \<not> (\<exists>e \<in> set (map strip ['' InceptionV3/Logits'', ''InceptionV3/Aux '']).
                           prefix e (op_name var)))
        (get_model_variables sample_framework)"
proof -
  have ev: "get_init_function sample_framework ''/logs'' (Some ''/models/inception'')
       (Some ['' InceptionV3/Logits'', ''InceptionV3/Aux '']) =
     Inr ([''Fine-tuning from /models/inception/model.ckpt-100''],
          Some (assign_from_checkpoint_fn ''/models/inception/model.ckpt-100''
            [\<lparr>name = ''InceptionV3/Conv2d_1a/weights:0'',
              op_name = ''InceptionV3/Conv2d_1a/weights''\<rparr>,
             \<lparr>name = ''InceptionV3/Conv2d_1a/BatchNorm/moving_mean:0'',
              op_name = ''InceptionV3/Conv2d_1a/BatchNorm/moving_mean''\<rparr>]
            False))"
    by (simp add: get_init_function_def truthy_def sample_strip sample_framework_def
          slim_assign_from_checkpoint_fn_def)
  have ex: "map strip ['' InceptionV3/Logits'', ''InceptionV3/Aux ''] =
      map strip (case Some ['' InceptionV3/Logits'', ''InceptionV3/Aux ''] of
                   None \<Rightarrow> [] | Some scopes \<Rightarrow> scopes)"
    by simp
  show ?thesis
    by (rule conjI [OF ev get_init_function_restores [OF ev ex]])
qed

subsection \<open>A pretrained directory without a checkpoint\<close>

text \<open>
  Claim C6. If \<open>pretrained_model_path\<close> is a directory in which
  \<open>tf.train.latest_checkpoint\<close> finds no checkpoint, and \<open>logdir\<close> holds no checkpoint,
  then \<open>get_init_function\<close> raises a \<open>ValueError\<close> whose message ends with that
  directory.
\<close>

theorem get_init_function_no_checkpoint:
  assumes "isdir fw path"
    and "latest_checkpoint fw path = None"
    and "\<not> truthy (latest_checkpoint fw dir)"
  shows "get_init_function fw dir (Some path) ex =
           Inl (ValueError [''No model checkpoint file found in directory '' @ path])"
  using assms by (simp add: get_init_function_def Let_def)

theorem get_init_function_no_checkpoint_witness:
  "isdir sample_framework ''/models/empty''
   \<and> latest_checkpoint sample_framework ''/models/empty'' = None
   \<and> \<not> truthy (latest_checkpoint sample_framework ''/logs'')
   \<and> get_init_function sample_framework ''/logs'' (Some ''/models/empty'') None =
       Inl (ValueError [''No model checkpoint file found in directory /models/empty''])"
proof -
  have a: "isdir sample_framework ''/models/empty''"
    and b: "latest_checkpoint sample_framework ''/models/empty'' = None"
    and c: "\<not> truthy (latest_checkpoint sample_framework ''/logs'')"
    by (simp_all add: sample_framework_def truthy_def)
  from get_init_function_no_checkpoint [OF a b c, of None] a b c
  show ?thesis by simp
qed

subsection \<open>No restore\<close>

text \<open>
  Claim C9. \<open>get_init_function\<close> returns \<open>None\<close>, with no error, when
  \<open>pretrained_model_path\<close> is \<open>None\<close>, and when \<open>logdir\<close> already holds a checkpoint.
  In the second case the pretrained path is not looked at, whatever it is (also a
  directory without a checkpoint); one line is written to the log at level info.
\<close>

theorem get_init_function_returns_None:
  "get_init_function fw dir None ex = Inr ([], None)
   \<and> (truthy (latest_checkpoint fw dir) \<longrightarrow>
        get_init_function fw dir (Some path) ex =
          Inr ([''Ignoring --pretrained_model_path because a checkpoint already exists in ''
                @ dir], None))"
  by (simp add: get_init_function_def)

theorem get_init_function_returns_None_witness:
  "get_init_function sample_framework ''/logs'' None None = Inr ([], None)
   \<and> truthy (latest_checkpoint sample_framework ''/models/inception'')
   \<and> isdir sample_framework ''/models/empty''
   \<and> latest_checkpoint sample_framework ''/models/empty'' = None
   \<and> get_init_function sample_framework ''/models/inception'' (Some ''/models/empty'') None =
       Inr ([''Ignoring --pretrained_model_path because a checkpoint already exists in /models/inception''],
            None)"
proof -
  have a: "truthy (latest_checkpoint sample_framework ''/models/inception'')"
    and b: "isdir sample_framework ''/models/empty''"
    and c: "latest_checkpoint sample_framework ''/models/empty'' = None"
    by (simp_all add: sample_framework_def truthy_def)
  from get_init_function_returns_None
         [of sample_framework "''/logs''" None]
       get_init_function_returns_None
         [of sample_framework "''/models/inception''" None "''/models/empty''"] a b c
  show ?thesis by simp
qed

subsection \<open>The overrides of the command line\<close>

text \<open>
  Claim C8. \<open>main\<close> passes to \<open>train\<close> the parsed configuration in which each of
  \<open>NUM_TRAIN_ITERATIONS\<close>, \<open>LEARNING_RATE_DECAY_TYPE\<close>, \<open>INITIAL_LEARNING_RATE\<close>,
  \<open>BATCH_SIZE\<close> and \<open>MODEL_NAME\<close> is the command-line value when one is given and the
  parsed value otherwise; putting the parsed values of these five fields back gives the
  parsed configuration, so no other field is changed.
\<close>

theorem main_replaces_cfg_parameters:
  "main fw nets parse_config_file a =
     train fw nets (tfrecords a) (logdir a)
       (replace_cfg_parameters a (parse_config_file (config_file a)))
       (pretrained_model a) (trainable_scopes a) (checkpoint_exclude_scopes a)
   \<and> NUM_TRAIN_ITERATIONS (replace_cfg_parameters a cfg) =
       (case max_number_of_steps a of None \<Rightarrow> NUM_TRAIN_ITERATIONS cfg | Some v \<Rightarrow> v)
   \<and> LEARNING_RATE_DECAY_TYPE (replace_cfg_parameters a cfg) =
       (case learning_rate_decay_type a of None \<Rightarrow> LEARNING_RATE_DECAY_TYPE cfg | Some v \<Rightarrow> v)
   \<and> INITIAL_LEARNING_RATE (replace_cfg_parameters a cfg) =
       (case learning_rate a of None \<Rightarrow> INITIAL_LEARNING_RATE cfg | Some v \<Rightarrow> v)
   \<and> BATCH_SIZE (replace_cfg_parameters a cfg) =
       (case batch_size a of None \<Rightarrow> BATCH_SIZE cfg | Some v \<Rightarrow> v)
   \<and> MODEL_NAME (replace_cfg_parameters a cfg) =
       (case model_name a of None \<Rightarrow> MODEL_NAME cfg | Some v \<Rightarrow> v)
   \<and> (replace_cfg_parameters a cfg)
        \<lparr>NUM_TRAIN_ITERATIONS := NUM_TRAIN_ITERATIONS cfg,
         LEARNING_RATE_DECAY_TYPE := LEARNING_RATE_DECAY_TYPE cfg,
         INITIAL_LEARNING_RATE := INITIAL_LEARNING_RATE cfg,
         BATCH_SIZE := BATCH_SIZE cfg,
         MODEL_NAME := MODEL_NAME cfg\<rparr> = cfg"
proof (intro conjI)
  show "main fw nets parse_config_file a =
     train fw nets (tfrecords a) (logdir a)
       (replace_cfg_parameters a (parse_config_file (config_file a)))
       (pretrained_model a) (trainable_scopes a) (checkpoint_exclude_scopes a)"
    by (simp add: main_def)
qed (simp_all add: replace_cfg_parameters_def Let_def split: option.splits)

theorem main_replaces_cfg_parameters_witness:
  "NUM_TRAIN_ITERATIONS (replace_cfg_parameters sample_args sample_cfg) = 0
   \<and> LEARNING_RATE_DECAY_TYPE (replace_cfg_parameters sample_args sample_cfg) = ''exponential''
   \<and> INITIAL_LEARNING_RATE (replace_cfg_parameters sample_args sample_cfg) = 1 / 1000
   \<and> BATCH_SIZE (replace_cfg_parameters sample_args sample_cfg) = 32
   \<and> MODEL_NAME (replace_cfg_parameters sample_args sample_cfg) = ''resnet_v2_50''
   \<and> (replace_cfg_parameters sample_args sample_cfg)
        \<lparr>NUM_TRAIN_ITERATIONS := 100000,
         LEARNING_RATE_DECAY_TYPE := ''exponential'',
         INITIAL_LEARNING_RATE := 1 / 100,
         BATCH_SIZE := 32,
         MODEL_NAME := ''inception_v3''\<rparr> = sample_cfg"
proof -
  have c: "NUM_TRAIN_ITERATIONS sample_cfg = 100000"
       "LEARNING_RATE_DECAY_TYPE sample_cfg = ''exponential''"
       "INITIAL_LEARNING_RATE sample_cfg = 1 / 100"
       "BATCH_SIZE sample_cfg = 32"
       "MODEL_NAME sample_cfg = ''inception_v3''"
    by (simp_all add: sample_cfg_def)
  have a: "max_number_of_steps sample_args = Some 0"
       "learning_rate_decay_type sample_args = None"
       "learning_rate sample_args = Some (1 / 1000)"
       "batch_size sample_args = None"
       "model_name sample_args = Some ''resnet_v2_50''"
    by (simp_all add: sample_args_def)
  from main_replaces_cfg_parameters [of _ _ _ sample_args sample_cfg, THEN conjunct2]
  show ?thesis
    by (simp only: c a option.case)
qed

subsection \<open>The order in which the graph is built\<close>

text \<open>
  Claim C7, as stated, on the sample configuration: \<open>train\<close> returns, and the stages it
  goes through are not in the order of the specification, whether its optimizer stage is
  read as the construction of the optimizer (which comes before the input pipeline) or as
  the creation of its train op (which comes after the moving averages).
\<close>

theorem train_order_counterexample:
  "\<not> isl (train sample_framework sample_nets [''train.tfrecords''] ''/logs'' sample_cfg
            None None None)
   \<and> stages (projr (train sample_framework sample_nets [''train.tfrecords''] ''/logs''
                       sample_cfg None None None)) =
       [Optimizer_stage, Input_pipeline, Network_stage, Loss_stage,
        Moving_average_tracking, Train_op_stage, Checkpointing, Training_loop]
   \<and> filter (\<lambda>s. s \<noteq> Train_op_stage)
        (stages (projr (train sample_framework sample_nets [''train.tfrecords''] ''/logs''
                          sample_cfg None None None)))
       \<noteq> spec_sequence Optimizer_stage
   \<and> filter (\<lambda>s. s \<noteq> Optimizer_stage)
        (stages (projr (train sample_framework sample_nets [''train.tfrecords''] ''/logs''
                          sample_cfg None None None)))
       \<noteq> spec_sequence Train_op_stage"
proof -
  have m: "MODEL_NAME sample_cfg = ''inception_v3''" "OPTIMIZER sample_cfg = ''rmsprop''"
    by (simp_all add: sample_cfg_def)
  show ?thesis
    by (simp add: train_def Let_def sample_learning_rate configure_optimizer_def m
          sample_nets_def sample_framework_def get_trainable_variables_def
          trainable_variables_def slim_learning_create_train_op_def get_init_function_def
          stages_def List.map_filter_simps spec_sequence_def)
qed

text \<open>
  Claim C7, amended. Whenever \<open>train\<close> returns, it has gone through the stages in this
  order: optimizer, input pipeline, network, loss, moving-average tracking, train op of
  the optimizer, checkpointing (the saver), and then the training loop of the framework.
  The calls themselves come in the order of the second list.
\<close>

theorem train_stages:
  assumes "train fw nets files dir cfg path ts ex = Inr calls"
  shows "stages calls =
           [Optimizer_stage, Input_pipeline, Network_stage, Loss_stage,
            Moving_average_tracking, Train_op_stage, Checkpointing, Training_loop]
       \<and> remdups_adj (map call_name calls) =
           [''slim.get_or_create_global_step'', ''_configure_learning_rate'',
            ''_configure_optimizer'', ''inputs.input_nodes'', ''slim.one_hot_encoding'',
            ''tf.get_collection'', ''nets_factory.arg_scopes_map'',
            ''nets_factory.networks_map'', ''tf.losses.softmax_cross_entropy'',
            ''tf.losses.get_total_loss'', ''tf.train.ExponentialMovingAverage'',
            ''ema.apply'', ''slim.learning.create_train_op'', ''tf.summary.merge'',
            ''tf.ConfigProto'', ''tf.train.Saver'', ''slim.learning.train'']"
  using assms unfolding train_def Let_def slim_learning_create_train_op_def
  by (auto split: sum.splits option.splits prod.splits if_splits
           simp: stages_def List.map_filter_simps)

theorem train_stages_witness:
  "\<not> isl (train sample_framework sample_nets [''a.tfrecords'', ''b.tfrecords''] ''/logs''
            sample_cfg None None None)
   \<and> stages (projr (train sample_framework sample_nets [''a.tfrecords'', ''b.tfrecords'']
                       ''/logs'' sample_cfg None None None)) =
       [Optimizer_stage, Input_pipeline, Network_stage, Loss_stage,
        Moving_average_tracking, Train_op_stage, Checkpointing, Training_loop]
   \<and> remdups_adj (map call_name
         (projr (train sample_framework sample_nets [''a.tfrecords'', ''b.tfrecords'']
                       ''/logs'' sample_cfg None None None))) =
           [''slim.get_or_create_global_step'', ''_configure_learning_rate'',
            ''_configure_optimizer'', ''inputs.input_nodes'', ''slim.one_hot_encoding'',
            ''tf.get_collection'', ''nets_factory.arg_scopes_map'',
            ''nets_factory.networks_map'', ''tf.losses.softmax_cross_entropy'',
            ''tf.losses.get_total_loss'', ''tf.train.ExponentialMovingAverage'',
            ''ema.apply'', ''slim.learning.create_train_op'', ''tf.summary.merge'',
            ''tf.ConfigProto'', ''tf.train.Saver'', ''slim.learning.train'']"
proof -
  note r = sample_train_returns [of "[''a.tfrecords'', ''b.tfrecords'']" "''/logs''"]
  from train_stages [OF sum.collapse(2) [OF r, symmetric]] r
  show ?thesis by simp
qed

end
